theory Spec2Isabelle
  imports Main "HOL-Library.AList"
begin

section \<open>Data model\<close>

subsection \<open>Algorithm tables\<close>

text \<open>
  An entry of the cipher table is a Python dict with the keys \<^verbatim>\<open>class\<close>, \<^verbatim>\<open>mode\<close>,
  \<^verbatim>\<open>block-size\<close>, \<^verbatim>\<open>key-size\<close> and, for some ciphers only, \<^verbatim>\<open>iv-size\<close> and
  \<^verbatim>\<open>is_aead\<close>: the activation code reads the last two with \<^verbatim>\<open>info.get(key, default)\<close>,
  so they are optional here. Class and mode objects are named by a string; Python's
  \<^verbatim>\<open>None\<close> is \<open>None\<close>.
\<close>

record cipher_entry =
  info_class :: "string option"
  info_mode :: "string option"
  info_block_size :: nat
  info_key_size :: nat
  info_iv_size :: "nat option"
  info_is_aead :: "bool option"

text \<open>A hash class as the code uses it: \<^verbatim>\<open>mac_engine().digest_size\<close>.\<close>

record hash_class =
  hash_name :: string
  digest_size :: nat

record mac_entry =
  info_mac_class :: "hash_class option"
  info_mac_size :: nat

text \<open>
  The three tables \<^verbatim>\<open>_cipher_info\<close>, \<^verbatim>\<open>_mac_info\<close> and \<^verbatim>\<open>_compression_info\<close>.
  They are dict objects that every transport of the process reaches through
  \<^verbatim>\<open>self\<close>; \<^verbatim>\<open>dict.update\<close> changes the object in place. The registry is therefore
  a state of its own, outside the per-session record. A compression entry is the pair
  (compressor class, decompressor class).
\<close>

record registry =
  cipher_info :: "(string \<times> cipher_entry) list"
  mac_info :: "(string \<times> mac_entry) list"
  compression_info :: "(string \<times> (string option \<times> string option)) list"

subsection \<open>Values handed to the packetizer\<close>

text \<open>
  \<^verbatim>\<open>_compute_key(id, nbytes)\<close> and the parent's \<^verbatim>\<open>_get_engine\<close> belong to the parent
  class, which is not part of the repository. Their results are kept symbolic: the
  key material is named by the slot letter and the length it was asked for, the engine
  by the arguments it was built from.
\<close>

datatype key_material = Derived string nat

datatype operation = DECRYPT | ENCRYPT

record engine =
  engine_name :: string
  engine_key :: key_material
  engine_iv :: key_material
  engine_operation :: operation
  engine_aead :: bool

text \<open>
  The keyword arguments of \<^verbatim>\<open>set_inbound_cipher\<close>; \<^verbatim>\<open>set_outbound_cipher\<close> takes
  \<^verbatim>\<open>sdctr\<close> in addition. The field \<open>iv\<close> is the keyword \<^verbatim>\<open>iv_in\<close>, respectively
  \<^verbatim>\<open>iv_out\<close>.
\<close>

record cipher_args =
  block_engine :: "engine option"
  block_size :: nat
  mac_engine :: "hash_class option"
  mac_size :: nat
  mac_key :: "key_material option"
  etm :: bool
  aead :: bool
  iv :: "key_material option"

record outbound_cipher_args = cipher_args +
  sdctr :: bool

subsection \<open>Messages and effects\<close>

text \<open>
  A \<^verbatim>\<open>Message\<close> is the sequence of fields added to it by \<^verbatim>\<open>add_byte\<close>,
  \<^verbatim>\<open>add_int\<close> and \<^verbatim>\<open>add_string\<close>. The message numbers
  \<^verbatim>\<open>cMSG_NEWKEYS\<close>, \<^verbatim>\<open>MSG_NEWKEYS\<close> and \<^verbatim>\<open>cMSG_EXT_INFO\<close> are constants of the
  library; they are kept as names.
\<close>

datatype msg_code = MSG_NEWKEYS | MSG_EXT_INFO

datatype field = Add_byte msg_code | Add_int nat | Add_string string

type_synonym message = "field list"

text \<open>
  Every call the activation code makes into the parent class or the packetizer is
  recorded, in order, in the transport's list of effects.
\<close>

datatype event =
    Log string
  | Compute_key string nat
  | Send_message message
  | Expect_packet msg_code
  | Set_inbound_cipher cipher_args
  | Set_outbound_cipher outbound_cipher_args
  | Set_inbound_compressor string
  | Set_outbound_compressor string
  | Reset_seqno_in
  | Reset_seqno_out

subsection \<open>The transport\<close>

text \<open>
  The attributes of a transport that the repository's code reads or assigns.
  \<open>priv_preferred_ciphers\<close> and \<open>priv_preferred_macs\<close> are the attributes
  \<^verbatim>\<open>_preferred_ciphers\<close> and \<^verbatim>\<open>_preferred_macs\<close>; \<open>remote_ext_info\<close> is
  \<^verbatim>\<open>getattr(self, '_remote_ext_info', None)\<close>; \<open>need_rekey\<close> is the answer that
  \<^verbatim>\<open>self.packetizer.need_rekey()\<close> gives when the outbound branch asks;
  \<open>server_sig_algs\<close> is the truth value of the attribute of that name. The last four
  fields before the effects are the state of \<^verbatim>\<open>self.packetizer\<close> that the activation
  changes: the settings of each direction, as the last call of the setter left them,
  and the two sequence numbers.
\<close>

record transport =
  server_mode :: bool
  authenticated :: bool
  agreed_on_strict_kex :: bool
  in_kex :: bool
  server_sig_algs :: bool
  remote_ext_info :: "string option"
  preferred_pubkeys :: "string list"
  priv_preferred_ciphers :: "string list"
  priv_preferred_macs :: "string list"
  local_cipher :: string
  remote_cipher :: string
  local_mac :: string
  remote_mac :: string
  local_compression :: string
  remote_compression :: string
  need_rekey :: bool
  outbound_cipher :: outbound_cipher_args
  inbound_cipher :: cipher_args
  seqno_out :: nat
  seqno_in :: nat
  effects :: "event list"

text \<open>
  A Python exception keeps the side effects made before it: a call either returns
  with the new state or raises with the state reached so far.
\<close>

datatype error = KeyError string | TypeError

datatype outcome = Returned transport | Raised error transport

fun state_of :: "outcome \<Rightarrow> transport" where
  "state_of (Returned t) = t"
| "state_of (Raised e t) = t"

text \<open>
  The parent class \<^verbatim>\<open>paramiko.Transport\<close> is a library outside the repository. What
  the code calls of it and cannot be named by an effect is a parameter: the
  read-only properties \<^verbatim>\<open>preferred_ciphers\<close> and \<^verbatim>\<open>preferred_macs\<close>, computed from
  the stored tuples, and the two standard activation methods.
\<close>

record parent =
  preferred_ciphers_of :: "string list \<Rightarrow> string list"
  preferred_macs_of :: "string list \<Rightarrow> string list"
  super_activate_inbound :: "registry \<Rightarrow> transport \<Rightarrow> outcome"
  super_activate_outbound :: "registry \<Rightarrow> transport \<Rightarrow> outcome"

section \<open>Helpers of the embedding\<close>

definition emit :: "event \<Rightarrow> transport \<Rightarrow> transport" where
  "emit e t = t\<lparr>effects := effects t @ [e]\<rparr>"

text \<open>The effects a call added to those of the state it started from.\<close>

definition emitted :: "transport \<Rightarrow> outcome \<Rightarrow> event list" where
  "emitted t r = drop (length (effects t)) (effects (state_of r))"

text \<open>\<^verbatim>\<open>self._compute_key(id, nbytes)\<close>: the call is recorded, the result symbolic.\<close>

definition compute_key :: "string \<Rightarrow> nat \<Rightarrow> transport \<Rightarrow> key_material \<times> transport" where
  "compute_key slot nbytes t = (Derived slot nbytes, emit (Compute_key slot nbytes) t)"

subsection \<open>The packetizer\<close>

text \<open>
  Modelled from the spec: the packetizer of section 4.1, whose code is in the library
  and not under the source directory. The two setters replace the settings of their
  direction; the two resets set a sequence number to zero. A packetizer that no setter
  has touched has no engines, block size 8 and MAC size 0.
\<close>

definition plain_inbound :: cipher_args where
  "plain_inbound =
     \<lparr>block_engine = None, block_size = 8, mac_engine = None, mac_size = 0,
      mac_key = None, etm = False, aead = False, iv = None\<rparr>"

definition plain_outbound :: outbound_cipher_args where
  "plain_outbound =
     \<lparr>block_engine = None, block_size = 8, mac_engine = None, mac_size = 0,
      mac_key = None, etm = False, aead = False, iv = None, sdctr = False\<rparr>"

definition set_inbound_cipher :: "cipher_args \<Rightarrow> transport \<Rightarrow> transport" where
  "set_inbound_cipher a t = (emit (Set_inbound_cipher a) t)\<lparr>inbound_cipher := a\<rparr>"

definition set_outbound_cipher :: "outbound_cipher_args \<Rightarrow> transport \<Rightarrow> transport" where
  "set_outbound_cipher a t = (emit (Set_outbound_cipher a) t)\<lparr>outbound_cipher := a\<rparr>"

definition reset_seqno_in :: "transport \<Rightarrow> transport" where
  "reset_seqno_in t = (emit Reset_seqno_in t)\<lparr>seqno_in := 0\<rparr>"

definition reset_seqno_out :: "transport \<Rightarrow> transport" where
  "reset_seqno_out t = (emit Reset_seqno_out t)\<lparr>seqno_out := 0\<rparr>"

text \<open>
  Modelled from the spec: the framing of a payload of \<open>n\<close> bytes by the packetizer's
  send (section 4.1: a length prefix, padding to a multiple of the block size, at least
  four bytes of it). The packet is the four bytes of the length, the byte of the padding
  length, the payload and the padding; the length field is left out of the count when
  it is not encrypted (encrypt-then-MAC and AEAD).
\<close>

definition padding_length :: "outbound_cipher_args \<Rightarrow> nat \<Rightarrow> nat" where
  "padding_length a n =
     (let bsize = block_size a;
          addlen = (if etm a \<or> aead a then 4 else 8)
      in 3 + bsize - (n + addlen) mod bsize)"

definition packet_length :: "outbound_cipher_args \<Rightarrow> nat \<Rightarrow> nat" where
  "packet_length a n = 5 + n + padding_length a n"

text \<open>
  Modelled from the spec: the packetizer's send (section 4.1), reached through
  \<^verbatim>\<open>self._send_message(m)\<close>. It frames the message, appends a MAC as the outbound
  settings say and increments the outbound sequence number, which wraps at 32 bits.
  The library computes the MAC whenever a cipher engine is set and the cipher is not
  AEAD, with the MAC key of the settings; with no key that computation raises
  \<^verbatim>\<open>TypeError\<close>, before anything is written or counted.
\<close>

definition can_send :: "outbound_cipher_args \<Rightarrow> bool" where
  "can_send a = (block_engine a = None \<or> aead a \<or> mac_key a \<noteq> None)"

definition send_message :: "message \<Rightarrow> transport \<Rightarrow> outcome" where
  "send_message m t =
     (if can_send (outbound_cipher t)
      then Returned ((emit (Send_message m) t)\<lparr>seqno_out := (seqno_out t + 1) mod 2 ^ 32\<rparr>)
      else Raised TypeError t)"

text \<open>\<^verbatim>\<open>self._expect_packet(code)\<close> notes the message that must come next.\<close>

definition expect_packet :: "msg_code \<Rightarrow> transport \<Rightarrow> transport" where
  "expect_packet code t = emit (Expect_packet code) t"

subsection \<open>Strings\<close>

text \<open>Python's \<^verbatim>\<open>sub in s\<close> and \<^verbatim>\<open>s.endswith(suf)\<close> on strings.\<close>

fun starts_with :: "string \<Rightarrow> string \<Rightarrow> bool" where
  "starts_with [] s = True"
| "starts_with (c # cs) [] = False"
| "starts_with (c # cs) (d # ds) = (c = d \<and> starts_with cs ds)"

fun str_in :: "string \<Rightarrow> string \<Rightarrow> bool" where
  "str_in sub [] = (sub = [])"
| "str_in sub (c # cs) = (starts_with sub (c # cs) \<or> str_in sub cs)"

definition endswith :: "string \<Rightarrow> string \<Rightarrow> bool" where
  "endswith s suf = starts_with (rev suf) (rev s)"

text \<open>\<^verbatim>\<open>",".join(xs)\<close>.\<close>

fun comma_join :: "string list \<Rightarrow> string" where
  "comma_join [] = []"
| "comma_join [x] = x"
| "comma_join (x # y # ys) = x @ '','' @ comma_join (y # ys)"

section \<open>NoneCipherTransport\<close>

subsection \<open>The engine override\<close>

text \<open>
  \<^verbatim>\<open>_get_engine\<close>: \<^verbatim>\<open>None\<close> for the name \<^verbatim>\<open>none\<close>, the parent's engine otherwise.
  The activation code calls it only with a name it has just found in the cipher table.
\<close>

definition get_engine ::
  "string \<Rightarrow> key_material \<Rightarrow> key_material \<Rightarrow> operation \<Rightarrow> bool \<Rightarrow> engine option" where
  "get_engine name key iv_arg op aead_arg =
     (if name = ''none'' then None
      else Some \<lparr>engine_name = name, engine_key = key, engine_iv = iv_arg,
                 engine_operation = op, engine_aead = aead_arg\<rparr>)"

subsection \<open>Inbound activation\<close>

text \<open>
  The cipher part of the custom branch of \<^verbatim>\<open>_activate_inbound\<close>: the engine and the
  IV, with the key derivation calls made for them. Nothing is derived when the cipher
  is \<^verbatim>\<open>none\<close>.
\<close>

definition cipher_setup_in ::
  "cipher_entry \<Rightarrow> transport \<Rightarrow> (engine option \<times> key_material option) \<times> transport" where
  "cipher_setup_in info t =
     (let aead_v = (case info_is_aead info of None \<Rightarrow> False | Some b \<Rightarrow> b);
          block_size_v = info_block_size info
      in if remote_cipher t \<noteq> ''none'' then
           let key_size = info_key_size info;
               iv_size = (case info_iv_size info of None \<Rightarrow> block_size_v | Some n \<Rightarrow> n);
               (iv_in, key_in, t2) =
                  (if server_mode t then
                     let (iv_in, t1) = compute_key ''A'' iv_size t;
                         (key_in, t2) = compute_key ''C'' key_size t1
                     in (iv_in, key_in, t2)
                   else
                     let (iv_in, t1) = compute_key ''B'' iv_size t;
                         (key_in, t2) = compute_key ''D'' key_size t1
                     in (iv_in, key_in, t2))
           in ((get_engine (remote_cipher t) key_in iv_in DECRYPT aead_v, Some iv_in), t2)
         else ((None, None), t))"

text \<open>
  The MAC part: engine, key, size and the encrypt-then-MAC flag. The table lookup
  raises \<^verbatim>\<open>KeyError\<close> on an unknown name, and calling a class that is \<^verbatim>\<open>None\<close> raises
  \<^verbatim>\<open>TypeError\<close>.
\<close>

definition mac_setup ::
  "registry \<Rightarrow> string \<Rightarrow> bool \<Rightarrow> string \<Rightarrow> string \<Rightarrow> transport \<Rightarrow>
     error + ((hash_class option \<times> key_material option \<times> nat \<times> bool) \<times> transport)" where
  "mac_setup reg mac_name aead_v server_slot client_slot t =
     (if mac_name \<noteq> ''none'' \<and> \<not> aead_v then
        (case map_of (mac_info reg) mac_name of
           None \<Rightarrow> Inl (KeyError mac_name)
         | Some mi \<Rightarrow>
             (case info_mac_class mi of
                None \<Rightarrow> Inl TypeError
              | Some cls \<Rightarrow>
                  let (k, t1) =
                        (if server_mode t then compute_key server_slot (digest_size cls) t
                         else compute_key client_slot (digest_size cls) t)
                  in Inr ((Some cls, Some k, info_mac_size mi,
                           str_in ''etm@openssh.com'' mac_name), t1)))
      else Inr ((None, None, (if aead_v then 16 else 0), False), t))"

text \<open>The compression and strict key exchange steps that end the inbound branch.\<close>

definition compression_in :: "registry \<Rightarrow> transport \<Rightarrow> outcome" where
  "compression_in reg t =
     (case map_of (compression_info reg) (remote_compression t) of
        None \<Rightarrow> Raised (KeyError (remote_compression t)) t
      | Some (c_out, compress_in) \<Rightarrow>
          (case compress_in of
             Some c \<Rightarrow>
               if remote_compression t \<noteq> ''zlib@openssh.com'' \<or> authenticated t
               then Returned (emit (Set_inbound_compressor c)
                               (emit (Log ''Switching on inbound compression ...'') t))
               else Returned t
           | None \<Rightarrow> Returned t))"

definition strict_kex_in :: "transport \<Rightarrow> transport" where
  "strict_kex_in t =
     (if agreed_on_strict_kex t
      then reset_seqno_in
             (emit (Log ''Resetting inbound seqno after NEWKEYS due to strict mode'') t)
      else t)"

text \<open>The whole custom branch of \<^verbatim>\<open>_activate_inbound\<close>.\<close>

definition null_activate_inbound :: "registry \<Rightarrow> transport \<Rightarrow> outcome" where
  "null_activate_inbound reg t0 =
     (let t = emit (Log ''Activating inbound stream with 'none' algorithm.'') t0
      in case map_of (cipher_info reg) (remote_cipher t) of
           None \<Rightarrow> Raised (KeyError (remote_cipher t)) t
         | Some info \<Rightarrow>
             let aead_v = (case info_is_aead info of None \<Rightarrow> False | Some b \<Rightarrow> b);
                 block_size_v = info_block_size info;
                 ((engine_v, iv_in), t1) = cipher_setup_in info t
             in case mac_setup reg (remote_mac t) aead_v ''E'' ''F'' t1 of
                  Inl e \<Rightarrow> Raised e t1
                | Inr ((mac_engine_v, mac_key_v, mac_size_v, etm_v), t2) \<Rightarrow>
                    let t3 = set_inbound_cipher
                                \<lparr>block_engine = engine_v, block_size = block_size_v,
                                 mac_engine = mac_engine_v, mac_size = mac_size_v,
                                 mac_key = mac_key_v, etm = etm_v, aead = aead_v,
                                 iv = (if aead_v then iv_in else None)\<rparr> t2
                    in case compression_in reg t3 of
                         Raised e t4 \<Rightarrow> Raised e t4
                       | Returned t4 \<Rightarrow> Returned (strict_kex_in t4))"

text \<open>
  \<^verbatim>\<open>_activate_inbound\<close>: the custom branch when the remote cipher or the remote MAC
  is \<^verbatim>\<open>none\<close>, the parent's method otherwise.
\<close>

definition activate_inbound :: "parent \<Rightarrow> registry \<Rightarrow> transport \<Rightarrow> outcome" where
  "activate_inbound P reg t =
     (if remote_cipher t = ''none'' \<or> remote_mac t = ''none''
      then null_activate_inbound reg t
      else super_activate_inbound P reg
             (emit (Log ''Activating inbound stream using superclass method.'') t))"

subsection \<open>Outbound activation\<close>

text \<open>The two messages the branch builds.\<close>

definition newkeys_message :: message where
  "newkeys_message = [Add_byte MSG_NEWKEYS]"

text \<open>
  The extension message: the message number, the number of extensions (the dict has
  one item) and, for each item in sorted order, its name and its value.
\<close>

definition ext_info_message :: "transport \<Rightarrow> message" where
  "ext_info_message t =
     [Add_byte MSG_EXT_INFO, Add_int 1, Add_string ''server-sig-algs'',
      Add_string (comma_join (preferred_pubkeys t))]"

text \<open>
  The NEWKEYS message and the strict key exchange step that open the branch. The send
  runs under the settings the packetizer had before this activation.
\<close>

definition send_newkeys :: "transport \<Rightarrow> outcome" where
  "send_newkeys t =
     (case send_message newkeys_message t of
        Raised e t1 \<Rightarrow> Raised e t1
      | Returned t1 \<Rightarrow>
          if agreed_on_strict_kex t1
          then Returned (reset_seqno_out
                 (emit (Log ''Resetting outbound seqno after NEWKEYS due to strict mode'') t1))
          else Returned t1)"

text \<open>The cipher part: engine, IV and the \<^verbatim>\<open>sdctr\<close> flag.\<close>

definition cipher_setup_out ::
  "cipher_entry \<Rightarrow> transport \<Rightarrow>
     (engine option \<times> key_material option \<times> bool) \<times> transport" where
  "cipher_setup_out info t =
     (let aead_v = (case info_is_aead info of None \<Rightarrow> False | Some b \<Rightarrow> b);
          block_size_v = info_block_size info
      in if local_cipher t \<noteq> ''none'' then
           let key_size = info_key_size info;
               iv_size = (case info_iv_size info of None \<Rightarrow> block_size_v | Some n \<Rightarrow> n);
               (iv_out, key_out, t2) =
                  (if server_mode t then
                     let (iv_out, t1) = compute_key ''B'' iv_size t;
                         (key_out, t2) = compute_key ''D'' key_size t1
                     in (iv_out, key_out, t2)
                   else
                     let (iv_out, t1) = compute_key ''A'' iv_size t;
                         (key_out, t2) = compute_key ''C'' key_size t1
                     in (iv_out, key_out, t2))
           in ((get_engine (local_cipher t) key_out iv_out ENCRYPT aead_v, Some iv_out,
                endswith (local_cipher t) ''-ctr''), t2)
         else ((None, None, False), t))"

definition compression_out :: "registry \<Rightarrow> transport \<Rightarrow> outcome" where
  "compression_out reg t =
     (case map_of (compression_info reg) (local_compression t) of
        None \<Rightarrow> Raised (KeyError (local_compression t)) t
      | Some (compress_out, c_in) \<Rightarrow>
          (case compress_out of
             Some c \<Rightarrow>
               if local_compression t \<noteq> ''zlib@openssh.com'' \<or> authenticated t
               then Returned (emit (Set_outbound_compressor c)
                               (emit (Log ''Switching on outbound compression ...'') t))
               else Returned t
           | None \<Rightarrow> Returned t))"

text \<open>
  The final steps: leave key exchange unless the packetizer asks for another one,
  send the extension message when the condition holds, expect the peer's NEWKEYS. The
  send runs under the settings this activation has just given the packetizer.
\<close>

definition final_steps :: "transport \<Rightarrow> outcome" where
  "final_steps t =
     (let t1 = (if \<not> need_rekey t then t\<lparr>in_kex := False\<rparr> else t)
      in if server_mode t1 \<and> server_sig_algs t1
            \<and> remote_ext_info t1 = Some ''ext-info-c''
         then (case send_message (ext_info_message t1) t1 of
                 Raised e t2 \<Rightarrow> Raised e t2
               | Returned t2 \<Rightarrow> Returned (expect_packet MSG_NEWKEYS t2))
         else Returned (expect_packet MSG_NEWKEYS t1))"

text \<open>The whole custom branch of \<^verbatim>\<open>_activate_outbound\<close>.\<close>

definition null_activate_outbound :: "registry \<Rightarrow> transport \<Rightarrow> outcome" where
  "null_activate_outbound reg t0 =
     (case send_newkeys
             (emit (Log ''Activating outbound stream with 'none' algorithm.'') t0) of
        Raised e t \<Rightarrow> Raised e t
      | Returned t \<Rightarrow>
         (case map_of (cipher_info reg) (local_cipher t) of
            None \<Rightarrow> Raised (KeyError (local_cipher t)) t
          | Some info \<Rightarrow>
             (let aead_v = (case info_is_aead info of None \<Rightarrow> False | Some b \<Rightarrow> b);
                  block_size_v = info_block_size info;
                  ((engine_v, iv_out, sdctr_v), t1) = cipher_setup_out info t
              in (case mac_setup reg (local_mac t) aead_v ''F'' ''E'' t1 of
                    Inl e \<Rightarrow> Raised e t1
                  | Inr ((mac_engine_v, mac_key_v, mac_size_v, etm_v), t2) \<Rightarrow>
                      (let t3 = set_outbound_cipher
                                  \<lparr>block_engine = engine_v, block_size = block_size_v,
                                   mac_engine = mac_engine_v, mac_size = mac_size_v,
                                   mac_key = mac_key_v, etm = etm_v, aead = aead_v,
                                   iv = (if aead_v then iv_out else None),
                                   sdctr = sdctr_v\<rparr> t2
                       in (case compression_out reg t3 of
                             Raised e t4 \<Rightarrow> Raised e t4
                           | Returned t4 \<Rightarrow> final_steps t4))))))"

text \<open>
  \<^verbatim>\<open>_activate_outbound\<close>: the custom branch when the local cipher or the local MAC is
  \<^verbatim>\<open>none\<close>, the parent's method otherwise.
\<close>

definition activate_outbound :: "parent \<Rightarrow> registry \<Rightarrow> transport \<Rightarrow> outcome" where
  "activate_outbound P reg t =
     (if local_cipher t = ''none'' \<or> local_mac t = ''none''
      then null_activate_outbound reg t
      else super_activate_outbound P reg
             (emit (Log ''Activating outbound stream using superclass method.'') t))"

subsection \<open>Construction\<close>

text \<open>The parameter records that \<^verbatim>\<open>__init__\<close> stores under the name \<^verbatim>\<open>none\<close>.\<close>

definition none_cipher_entry :: cipher_entry where
  "none_cipher_entry =
     \<lparr>info_class = None, info_mode = None, info_block_size = 8, info_key_size = 0,
      info_iv_size = Some 0, info_is_aead = Some False\<rparr>"

definition none_mac_entry :: mac_entry where
  "none_mac_entry = \<lparr>info_mac_class = None, info_mac_size = 0\<rparr>"

text \<open>The properties \<^verbatim>\<open>preferred_ciphers\<close> and \<^verbatim>\<open>preferred_macs\<close> of a transport.\<close>

definition preferred_ciphers :: "parent \<Rightarrow> transport \<Rightarrow> string list" where
  "preferred_ciphers P t = preferred_ciphers_of P (priv_preferred_ciphers t)"

definition preferred_macs :: "parent \<Rightarrow> transport \<Rightarrow> string list" where
  "preferred_macs P t = preferred_macs_of P (priv_preferred_macs t)"

text \<open>
  \<^verbatim>\<open>NoneCipherTransport.__init__\<close>, applied to the transport \<open>base\<close> that the parent's
  constructor has set up. The two assignments create attributes of this transport;
  the two \<^verbatim>\<open>update\<close> calls change the tables in place.
\<close>

definition init :: "parent \<Rightarrow> registry \<Rightarrow> transport \<Rightarrow> registry \<times> transport" where
  "init P reg base =
     (let t1 = base\<lparr>priv_preferred_ciphers := preferred_ciphers P base @ [''none'']\<rparr>;
          t2 = t1\<lparr>priv_preferred_macs := preferred_macs P t1 @ [''none'']\<rparr>;
          reg1 = reg\<lparr>cipher_info := AList.update ''none'' none_cipher_entry (cipher_info reg)\<rparr>;
          reg2 = reg1\<lparr>mac_info := AList.update ''none'' none_mac_entry (mac_info reg1)\<rparr>
      in (reg2, t2))"

text \<open>
  The two lines by which the demo client and the demo server put \<^verbatim>\<open>none\<close> in front
  of the preference tuples of their transport.
\<close>

definition put_none_first :: "parent \<Rightarrow> transport \<Rightarrow> transport" where
  "put_none_first P t =
     (let t1 = t\<lparr>priv_preferred_ciphers :=
                   ''none'' # filter (\<lambda>c. c \<noteq> ''none'') (preferred_ciphers P t)\<rparr>
      in t1\<lparr>priv_preferred_macs :=
               ''none'' # filter (\<lambda>m. m \<noteq> ''none'') (preferred_macs P t1)\<rparr>)"

text \<open>
  A process: the tables and the transports that exist. Constructing a transport adds
  it to the process and changes the tables it shares with the others; the demo programs
  then reorder the preferences of the transport just made.
\<close>

record process =
  tables :: registry
  sessions :: "transport list"

definition construct :: "parent \<Rightarrow> transport \<Rightarrow> process \<Rightarrow> process" where
  "construct P base p =
     (let (reg, t) = init P (tables p) base
      in \<lparr>tables = reg, sessions = sessions p @ [t]\<rparr>)"

definition construct_demo :: "parent \<Rightarrow> transport \<Rightarrow> process \<Rightarrow> process" where
  "construct_demo P base p =
     (let (reg, t) = init P (tables p) base
      in \<lparr>tables = reg, sessions = sessions p @ [put_none_first P t]\<rparr>)"

section \<open>The demo server's decisions\<close>

text \<open>
  The result codes are constants of the library, kept as names. The handler's only
  attribute is its \<^verbatim>\<open>threading.Event\<close>, here the flag that says whether it is set.
  The methods also write to the log of the \<^verbatim>\<open>logging\<close> module, which is left out.
\<close>

datatype auth_result = AUTH_SUCCESSFUL | AUTH_PARTIALLY_SUCCESSFUL | AUTH_FAILED

datatype open_result =
    OPEN_SUCCEEDED
  | OPEN_FAILED_ADMINISTRATIVELY_PROHIBITED
  | OPEN_FAILED_CONNECT_FAILED
  | OPEN_FAILED_UNKNOWN_CHANNEL_TYPE
  | OPEN_FAILED_RESOURCE_SHORTAGE

record allow_all_server =
  event_set :: bool

definition check_channel_request :: "allow_all_server \<Rightarrow> string \<Rightarrow> nat \<Rightarrow> open_result" where
  "check_channel_request s kind chanid =
     (if kind = ''session'' then OPEN_SUCCEEDED
      else OPEN_FAILED_ADMINISTRATIVELY_PROHIBITED)"

definition check_auth_none :: "allow_all_server \<Rightarrow> string \<Rightarrow> auth_result \<times> allow_all_server" where
  "check_auth_none s username = (AUTH_SUCCESSFUL, s\<lparr>event_set := True\<rparr>)"

definition check_auth_password :: "allow_all_server \<Rightarrow> string \<Rightarrow> string \<Rightarrow> auth_result" where
  "check_auth_password s username password = AUTH_FAILED"

definition check_auth_publickey :: "allow_all_server \<Rightarrow> string \<Rightarrow> 'key \<Rightarrow> auth_result" where
  "check_auth_publickey s username key = AUTH_FAILED"

definition get_allowed_auths :: "allow_all_server \<Rightarrow> string \<Rightarrow> string" where
  "get_allowed_auths s username = ''none''"

text \<open>
  The answer of \<^verbatim>\<open>get_allowed_auths\<close> is a comma-separated list of method names;
  \<open>split_commas\<close> is Python's \<^verbatim>\<open>s.split(",")\<close>.
\<close>

fun split_commas_acc :: "string \<Rightarrow> string \<Rightarrow> string list" where
  "split_commas_acc acc [] = [rev acc]"
| "split_commas_acc acc (c # cs) =
     (if c = CHR '','' then rev acc # split_commas_acc [] cs
      else split_commas_acc (c # acc) cs)"

definition split_commas :: "string \<Rightarrow> string list" where
  "split_commas s = split_commas_acc [] s"

section \<open>Reading the effects\<close>

text \<open>The key derivation calls among a list of effects, in order: slot and length.\<close>

fun key_derivations :: "event list \<Rightarrow> (string \<times> nat) list" where
  "key_derivations [] = []"
| "key_derivations (Compute_key slot n # es) = (slot, n) # key_derivations es"
| "key_derivations (e # es) = key_derivations es"

text \<open>The messages sent among a list of effects, in order.\<close>

fun sent_messages :: "event list \<Rightarrow> message list" where
  "sent_messages [] = []"
| "sent_messages (Send_message m # es) = m # sent_messages es"
| "sent_messages (e # es) = sent_messages es"

text \<open>The effects without the log lines.\<close>

fun without_logs :: "event list \<Rightarrow> event list" where
  "without_logs [] = []"
| "without_logs (Log s # es) = without_logs es"
| "without_logs (e # es) = e # without_logs es"

text \<open>Whether a call returned, rather than raised.\<close>

fun returned :: "outcome \<Rightarrow> bool" where
  "returned (Returned t) = True"
| "returned (Raised e t) = False"

text \<open>The exception a call raised, if it raised.\<close>

fun error_of :: "outcome \<Rightarrow> error option" where
  "error_of (Returned t) = None"
| "error_of (Raised e t) = Some e"

section \<open>The custom branches, section by section\<close>

text \<open>
  The values and the effects of each section of the custom branches, written as
  functions of the state the branch starts from. The sections of
  \<open>null_activate_inbound\<close> and \<open>null_activate_outbound\<close> are shown below to compute
  them, so that a property of a whole branch is read off its outcome.
\<close>

definition is_aead_of :: "cipher_entry \<Rightarrow> bool" where
  "is_aead_of info = (case info_is_aead info of None \<Rightarrow> False | Some b \<Rightarrow> b)"

definition iv_size_of :: "cipher_entry \<Rightarrow> nat" where
  "iv_size_of info = (case info_iv_size info of None \<Rightarrow> info_block_size info | Some n \<Rightarrow> n)"

definition slot_for :: "bool \<Rightarrow> string \<Rightarrow> string \<Rightarrow> string" where
  "slot_for server server_slot client_slot = (if server then server_slot else client_slot)"

definition cipher_values ::
  "string \<Rightarrow> cipher_entry \<Rightarrow> string \<Rightarrow> string \<Rightarrow> operation \<Rightarrow>
     engine option \<times> key_material option" where
  "cipher_values name info iv_slot key_slot op =
     (if name = ''none'' then (None, None)
      else (get_engine name (Derived key_slot (info_key_size info))
              (Derived iv_slot (iv_size_of info)) op (is_aead_of info),
            Some (Derived iv_slot (iv_size_of info))))"

definition cipher_events :: "string \<Rightarrow> cipher_entry \<Rightarrow> string \<Rightarrow> string \<Rightarrow> event list" where
  "cipher_events name info iv_slot key_slot =
     (if name = ''none'' then []
      else [Compute_key iv_slot (iv_size_of info), Compute_key key_slot (info_key_size info)])"

definition mac_values ::
  "registry \<Rightarrow> string \<Rightarrow> bool \<Rightarrow> string \<Rightarrow>
     error + ((hash_class option \<times> key_material option \<times> nat \<times> bool) \<times> event list)" where
  "mac_values reg name aead_v slot =
     (if name \<noteq> ''none'' \<and> \<not> aead_v then
        (case map_of (mac_info reg) name of
           None \<Rightarrow> Inl (KeyError name)
         | Some mi \<Rightarrow>
             (case info_mac_class mi of
                None \<Rightarrow> Inl TypeError
              | Some cls \<Rightarrow>
                  Inr ((Some cls, Some (Derived slot (digest_size cls)), info_mac_size mi,
                        str_in ''etm@openssh.com'' name),
                       [Compute_key slot (digest_size cls)])))
      else Inr ((None, None, (if aead_v then 16 else 0), False), []))"

definition compressor_events ::
  "(string \<Rightarrow> event) \<Rightarrow> string \<Rightarrow> string option \<Rightarrow> string \<Rightarrow> bool \<Rightarrow> event list" where
  "compressor_events install msg cls name auth =
     (case cls of
        Some c \<Rightarrow> if name \<noteq> ''zlib@openssh.com'' \<or> auth then [Log msg, install c] else []
      | None \<Rightarrow> [])"

definition strict_events :: "bool \<Rightarrow> string \<Rightarrow> event \<Rightarrow> event list" where
  "strict_events strict msg reset = (if strict then [Log msg, reset] else [])"

text \<open>The condition under which the outbound branch sends the extension message.\<close>

definition ext_info_wanted :: "transport \<Rightarrow> bool" where
  "ext_info_wanted t =
     (server_mode t \<and> server_sig_algs t \<and> remote_ext_info t = Some ''ext-info-c'')"

definition ext_info_events :: "transport \<Rightarrow> event list" where
  "ext_info_events t = (if ext_info_wanted t then [Send_message (ext_info_message t)] else [])"

text \<open>Whether the MAC section gets through its lookups.\<close>

definition mac_lookup_succeeds :: "registry \<Rightarrow> string \<Rightarrow> bool \<Rightarrow> bool" where
  "mac_lookup_succeeds reg name aead_v =
     (name = ''none'' \<or> aead_v \<or>
      (case map_of (mac_info reg) name of
         None \<Rightarrow> False
       | Some mi \<Rightarrow> info_mac_class mi \<noteq> None))"

text \<open>The outbound sequence number once NEWKEYS is sent and strict mode has had its turn.\<close>

definition seqno_after_newkeys :: "transport \<Rightarrow> nat" where
  "seqno_after_newkeys t =
     (if agreed_on_strict_kex t then 0 else (seqno_out t + 1) mod 2 ^ 32)"

definition inbound_args :: "cipher_entry \<Rightarrow> transport \<Rightarrow>
    hash_class option \<times> key_material option \<times> nat \<times> bool \<Rightarrow> cipher_args" where
  "inbound_args info t mv =
     (case mv of (mac_engine_v, mac_key_v, mac_size_v, etm_v) \<Rightarrow>
      \<lparr>block_engine = fst (cipher_values (remote_cipher t) info
                        (slot_for (server_mode t) ''A'' ''B'')
                        (slot_for (server_mode t) ''C'' ''D'') DECRYPT),
       block_size = info_block_size info,
       mac_engine = mac_engine_v, mac_size = mac_size_v, mac_key = mac_key_v,
       etm = etm_v, aead = is_aead_of info,
       iv = (if is_aead_of info
             then snd (cipher_values (remote_cipher t) info
                        (slot_for (server_mode t) ''A'' ''B'')
                        (slot_for (server_mode t) ''C'' ''D'') DECRYPT)
             else None)\<rparr>)"

definition outbound_args :: "cipher_entry \<Rightarrow> transport \<Rightarrow>
    hash_class option \<times> key_material option \<times> nat \<times> bool \<Rightarrow> outbound_cipher_args" where
  "outbound_args info t mv =
     (case mv of (mac_engine_v, mac_key_v, mac_size_v, etm_v) \<Rightarrow>
      \<lparr>block_engine = fst (cipher_values (local_cipher t) info
                        (slot_for (server_mode t) ''B'' ''A'') (slot_for (server_mode t) ''D'' ''C'') ENCRYPT),
       block_size = info_block_size info,
       mac_engine = mac_engine_v, mac_size = mac_size_v, mac_key = mac_key_v,
       etm = etm_v, aead = is_aead_of info,
       iv = (if is_aead_of info
             then snd (cipher_values (local_cipher t) info
                        (slot_for (server_mode t) ''B'' ''A'') (slot_for (server_mode t) ''D'' ''C'') ENCRYPT)
             else None),
       sdctr = (local_cipher t \<noteq> ''none'' \<and> endswith (local_cipher t) ''-ctr'')\<rparr>)"

definition outbound_prefix :: "transport \<Rightarrow> event list" where
  "outbound_prefix t =
     Log ''Activating outbound stream with 'none' algorithm.'' #
     Send_message newkeys_message #
     strict_events (agreed_on_strict_kex t)
       ''Resetting outbound seqno after NEWKEYS due to strict mode'' Reset_seqno_out"

text \<open>
  The key derivation the MAC section makes: the integrity key in the given slot, of
  the length of the hash's digest, unless the MAC is \<^verbatim>\<open>none\<close> or the cipher is AEAD.
  A lookup that raises derives nothing.
\<close>

definition mac_derivations :: "registry \<Rightarrow> string \<Rightarrow> bool \<Rightarrow> string \<Rightarrow> (string \<times> nat) list" where
  "mac_derivations reg name aead_v slot =
     (if name = ''none'' \<or> aead_v then []
      else (case map_of (mac_info reg) name of
              None \<Rightarrow> []
            | Some mi \<Rightarrow> (case info_mac_class mi of
                           None \<Rightarrow> []
                         | Some cls \<Rightarrow> [(slot, digest_size cls)])))"

section \<open>Example inputs\<close>

text \<open>
  A parent whose properties return the stored tuples and whose activation methods
  return at once; tables with one plain cipher, one AEAD cipher, two MACs and the
  three compression names; a server transport on which \<^verbatim>\<open>none\<close> was negotiated for
  everything and whose packetizer no setter has touched yet.
\<close>

definition example_parent :: parent where
  "example_parent =
     \<lparr>preferred_ciphers_of = (\<lambda>xs. xs), preferred_macs_of = (\<lambda>xs. xs),
      super_activate_inbound = (\<lambda>reg t. Returned t),
      super_activate_outbound = (\<lambda>reg t. Returned t)\<rparr>"

definition library_registry :: registry where
  "library_registry =
     \<lparr>cipher_info =
        [(''aes128-ctr'',
          \<lparr>info_class = Some ''AES'', info_mode = Some ''CTR'', info_block_size = 16,
           info_key_size = 16, info_iv_size = None, info_is_aead = None\<rparr>),
         (''aes128-gcm@openssh.com'',
          \<lparr>info_class = Some ''AESGCM'', info_mode = None, info_block_size = 16,
           info_key_size = 16, info_iv_size = Some 12, info_is_aead = Some True\<rparr>)],
      mac_info =
        [(''hmac-sha2-256'',
          \<lparr>info_mac_class = Some \<lparr>hash_name = ''sha256'', digest_size = 32\<rparr>,
           info_mac_size = 32\<rparr>),
         (''hmac-sha2-256-etm@openssh.com'',
          \<lparr>info_mac_class = Some \<lparr>hash_name = ''sha256'', digest_size = 32\<rparr>,
           info_mac_size = 32\<rparr>)],
      compression_info =
        [(''zlib@openssh.com'', (Some ''ZlibCompressor'', Some ''ZlibDecompressor'')),
         (''zlib'', (Some ''ZlibCompressor'', Some ''ZlibDecompressor'')),
         (''none'', (None, None))]\<rparr>"

definition example_server :: transport where
  "example_server =
     \<lparr>server_mode = True, authenticated = False, agreed_on_strict_kex = True,
      in_kex = True, server_sig_algs = True, remote_ext_info = Some ''ext-info-c'',
      preferred_pubkeys = [''ssh-ed25519'', ''rsa-sha2-512''],
      priv_preferred_ciphers = [''aes128-ctr'', ''aes128-gcm@openssh.com''],
      priv_preferred_macs = [''hmac-sha2-256''],
      local_cipher = ''none'', remote_cipher = ''none'',
      local_mac = ''none'', remote_mac = ''none'',
      local_compression = ''none'', remote_compression = ''none'',
      need_rekey = False,
      outbound_cipher = plain_outbound, inbound_cipher = plain_inbound,
      seqno_out = 3, seqno_in = 3, effects = []\<rparr>"

definition example_registry :: registry where
  "example_registry = fst (init example_parent library_registry example_server)"

text \<open>
  The example server after its first outbound activation, once the client has
  authenticated and a new key exchange has begun.
\<close>

definition example_rekey :: transport where
  "example_rekey =
     (state_of (activate_outbound example_parent example_registry example_server))
       \<lparr>authenticated := True, in_kex := True\<rparr>"

text \<open>A process with the library's tables and one transport.\<close>

definition example_process :: process where
  "example_process =
     \<lparr>tables = library_registry, sessions = [example_server\<lparr>server_mode := False\<rparr>]\<rparr>"

section \<open>Lemmas on the sections\<close>

lemma key_derivations_append [simp]:
  "key_derivations (xs @ ys) = key_derivations xs @ key_derivations ys"
  by (induction xs rule: key_derivations.induct) simp_all

lemma sent_messages_append [simp]:
  "sent_messages (xs @ ys) = sent_messages xs @ sent_messages ys"
  by (induction xs rule: sent_messages.induct) simp_all

lemma without_logs_append [simp]:
  "without_logs (xs @ ys) = without_logs xs @ without_logs ys"
  by (induction xs rule: without_logs.induct) simp_all

lemma cipher_setup_in_eq:
  "cipher_setup_in info t =
     (cipher_values (remote_cipher t) info (slot_for (server_mode t) ''A'' ''B'')
        (slot_for (server_mode t) ''C'' ''D'') DECRYPT,
      t\<lparr>effects := effects t @
           cipher_events (remote_cipher t) info (slot_for (server_mode t) ''A'' ''B'')
             (slot_for (server_mode t) ''C'' ''D'')\<rparr>)"
  by (simp add: cipher_setup_in_def compute_key_def emit_def Let_def is_aead_of_def iv_size_of_def
      cipher_values_def cipher_events_def slot_for_def)

lemma cipher_setup_out_eq:
  "cipher_setup_out info t =
     ((fst (cipher_values (local_cipher t) info (slot_for (server_mode t) ''B'' ''A'')
              (slot_for (server_mode t) ''D'' ''C'') ENCRYPT),
       snd (cipher_values (local_cipher t) info (slot_for (server_mode t) ''B'' ''A'')
              (slot_for (server_mode t) ''D'' ''C'') ENCRYPT),
       local_cipher t \<noteq> ''none'' \<and> endswith (local_cipher t) ''-ctr''),
      t\<lparr>effects := effects t @
           cipher_events (local_cipher t) info (slot_for (server_mode t) ''B'' ''A'')
             (slot_for (server_mode t) ''D'' ''C'')\<rparr>)"
  by (simp add: cipher_setup_out_def compute_key_def emit_def Let_def is_aead_of_def iv_size_of_def
      cipher_values_def cipher_events_def slot_for_def)

lemma mac_setup_eq:
  "mac_setup reg name a s c t =
     (case mac_values reg name a (slot_for (server_mode t) s c) of
        Inl e \<Rightarrow> Inl e
      | Inr (vals, evs) \<Rightarrow> Inr (vals, t\<lparr>effects := effects t @ evs\<rparr>))"
  by (simp add: mac_setup_def mac_values_def compute_key_def emit_def Let_def slot_for_def
      split: option.split)

lemma compression_in_eq:
  "compression_in reg t =
     (case map_of (compression_info reg) (remote_compression t) of
        None \<Rightarrow> Raised (KeyError (remote_compression t)) t
      | Some (c_out, c_in) \<Rightarrow>
          Returned (t\<lparr>effects := effects t @
            compressor_events Set_inbound_compressor ''Switching on inbound compression ...''
              c_in (remote_compression t) (authenticated t)\<rparr>))"
  by (simp add: compression_in_def compressor_events_def emit_def split: option.split)

lemma compression_out_eq:
  "compression_out reg t =
     (case map_of (compression_info reg) (local_compression t) of
        None \<Rightarrow> Raised (KeyError (local_compression t)) t
      | Some (c_out, c_in) \<Rightarrow>
          Returned (t\<lparr>effects := effects t @
            compressor_events Set_outbound_compressor ''Switching on outbound compression ...''
              c_out (local_compression t) (authenticated t)\<rparr>))"
  by (simp add: compression_out_def compressor_events_def emit_def split: option.split)

lemma strict_kex_in_eq:
  "strict_kex_in t =
     t\<lparr>seqno_in := (if agreed_on_strict_kex t then 0 else seqno_in t),
       effects := effects t @
         strict_events (agreed_on_strict_kex t)
           ''Resetting inbound seqno after NEWKEYS due to strict mode'' Reset_seqno_in\<rparr>"
  by (simp add: strict_kex_in_def strict_events_def emit_def reset_seqno_in_def)

lemma seqno_after_newkeys_effects [simp]:
  "seqno_after_newkeys (t\<lparr>effects := es\<rparr>) = seqno_after_newkeys t"
  by (simp add: seqno_after_newkeys_def)

lemma send_newkeys_eq:
  "send_newkeys t =
     (if can_send (outbound_cipher t)
      then Returned (t\<lparr>seqno_out := seqno_after_newkeys t,
             effects := effects t @ Send_message newkeys_message #
               strict_events (agreed_on_strict_kex t)
                 ''Resetting outbound seqno after NEWKEYS due to strict mode'' Reset_seqno_out\<rparr>)
      else Raised TypeError t)"
  by (simp add: send_newkeys_def send_message_def strict_events_def emit_def reset_seqno_out_def
      seqno_after_newkeys_def)

lemma ext_info_updates [simp]:
  "ext_info_message (t\<lparr>effects := es\<rparr>) = ext_info_message t"
  "ext_info_message (t\<lparr>in_kex := b\<rparr>) = ext_info_message t"
  "ext_info_message (t\<lparr>seqno_out := n\<rparr>) = ext_info_message t"
  "ext_info_message (t\<lparr>outbound_cipher := a\<rparr>) = ext_info_message t"
  "ext_info_wanted (t\<lparr>effects := es\<rparr>) = ext_info_wanted t"
  "ext_info_wanted (t\<lparr>in_kex := b\<rparr>) = ext_info_wanted t"
  "ext_info_wanted (t\<lparr>seqno_out := n\<rparr>) = ext_info_wanted t"
  "ext_info_wanted (t\<lparr>outbound_cipher := a\<rparr>) = ext_info_wanted t"
  by (simp_all add: ext_info_message_def ext_info_wanted_def)

lemma ext_info_events_updates [simp]:
  "ext_info_events (t\<lparr>effects := es\<rparr>) = ext_info_events t"
  "ext_info_events (t\<lparr>in_kex := b\<rparr>) = ext_info_events t"
  "ext_info_events (t\<lparr>seqno_out := n\<rparr>) = ext_info_events t"
  "ext_info_events (t\<lparr>outbound_cipher := a\<rparr>) = ext_info_events t"
  by (simp_all add: ext_info_events_def)

lemma final_steps_eq:
  "final_steps t =
     (if ext_info_wanted t \<and> \<not> can_send (outbound_cipher t)
      then Raised TypeError (t\<lparr>in_kex := need_rekey t \<and> in_kex t\<rparr>)
      else Returned (t\<lparr>in_kex := need_rekey t \<and> in_kex t,
             seqno_out := (if ext_info_wanted t then (seqno_out t + 1) mod 2 ^ 32
                           else seqno_out t),
             effects := effects t @ ext_info_events t @ [Expect_packet MSG_NEWKEYS]\<rparr>))"
  by (auto simp: final_steps_def send_message_def expect_packet_def ext_info_events_def
      ext_info_wanted_def emit_def Let_def)

text \<open>The custom inbound branch: its outcome, with the state and all the effects.\<close>

lemma null_activate_inbound_eq:
  "null_activate_inbound reg t =
     (case map_of (cipher_info reg) (remote_cipher t) of
        None \<Rightarrow> Raised (KeyError (remote_cipher t))
                 (t\<lparr>effects := effects t @
                      [Log ''Activating inbound stream with 'none' algorithm.'']\<rparr>)
      | Some info \<Rightarrow>
          (case mac_values reg (remote_mac t) (is_aead_of info)
                  (slot_for (server_mode t) ''E'' ''F'') of
             Inl e \<Rightarrow> Raised e
                 (t\<lparr>effects := effects t @
                      Log ''Activating inbound stream with 'none' algorithm.'' #
                      cipher_events (remote_cipher t) info
                        (slot_for (server_mode t) ''A'' ''B'')
                        (slot_for (server_mode t) ''C'' ''D'')\<rparr>)
           | Inr (mv, mev) \<Rightarrow>
               (case map_of (compression_info reg) (remote_compression t) of
                  None \<Rightarrow> Raised (KeyError (remote_compression t))
                    (t\<lparr>inbound_cipher := inbound_args info t mv,
                       effects := effects t @
                      Log ''Activating inbound stream with 'none' algorithm.'' #
                      cipher_events (remote_cipher t) info
                        (slot_for (server_mode t) ''A'' ''B'')
                        (slot_for (server_mode t) ''C'' ''D'') @ mev @
                      [Set_inbound_cipher (inbound_args info t mv)]\<rparr>)
                | Some (c_out, c_in) \<Rightarrow> Returned
                    (t\<lparr>inbound_cipher := inbound_args info t mv,
                       seqno_in := (if agreed_on_strict_kex t then 0 else seqno_in t),
                       effects := effects t @
                      Log ''Activating inbound stream with 'none' algorithm.'' #
                      cipher_events (remote_cipher t) info
                        (slot_for (server_mode t) ''A'' ''B'')
                        (slot_for (server_mode t) ''C'' ''D'') @ mev @
                      [Set_inbound_cipher (inbound_args info t mv)] @
                      compressor_events Set_inbound_compressor
                        ''Switching on inbound compression ...''
                        c_in (remote_compression t) (authenticated t) @
                      strict_events (agreed_on_strict_kex t)
                        ''Resetting inbound seqno after NEWKEYS due to strict mode''
                        Reset_seqno_in\<rparr>))))"
proof (cases "map_of (cipher_info reg) (remote_cipher t)")
  case None
  then show ?thesis
    by (simp add: null_activate_inbound_def emit_def)
next
  case (Some info)
  have a: "(case info_is_aead info of None \<Rightarrow> False | Some b \<Rightarrow> b) = is_aead_of info"
    by (simp add: is_aead_of_def)
  show ?thesis
  proof (cases "mac_values reg (remote_mac t) (is_aead_of info)
      (slot_for (server_mode t) ''E'' ''F'')")
    case (Inl e)
    with Some show ?thesis
      by (simp add: null_activate_inbound_def emit_def a cipher_setup_in_eq mac_setup_eq Let_def
          split: prod.split split del: if_split)
  next
    case (Inr r)
    obtain mv mev where r: "r = (mv, mev)" by (cases r)
    obtain me mk ms et where mv: "mv = (me, mk, ms, et)" by (cases mv) auto
    from Some Inr r mv show ?thesis
      by (simp add: null_activate_inbound_def emit_def a cipher_setup_in_eq mac_setup_eq
          compression_in_eq strict_kex_in_eq inbound_args_def set_inbound_cipher_def Let_def
          split: option.split prod.split split del: if_split cong: if_cong)
  qed
qed

text \<open>The custom outbound branch: its outcome, with the state and all the effects.\<close>

lemma null_activate_outbound_eq:
  "null_activate_outbound reg t =
     (if \<not> can_send (outbound_cipher t)
      then Raised TypeError
             (t\<lparr>effects := effects t @
                  [Log ''Activating outbound stream with 'none' algorithm.'']\<rparr>)
      else
     (case map_of (cipher_info reg) (local_cipher t) of
        None \<Rightarrow> Raised (KeyError (local_cipher t))
                 (t\<lparr>seqno_out := seqno_after_newkeys t,
                    effects := effects t @ outbound_prefix t\<rparr>)
      | Some info \<Rightarrow>
          (case mac_values reg (local_mac t) (is_aead_of info)
                  (slot_for (server_mode t) ''F'' ''E'') of
             Inl e \<Rightarrow> Raised e
                 (t\<lparr>seqno_out := seqno_after_newkeys t,
                    effects := effects t @ outbound_prefix t @
                      cipher_events (local_cipher t) info
                        (slot_for (server_mode t) ''B'' ''A'')
                        (slot_for (server_mode t) ''D'' ''C'')\<rparr>)
           | Inr (mv, mev) \<Rightarrow>
               (case map_of (compression_info reg) (local_compression t) of
                  None \<Rightarrow> Raised (KeyError (local_compression t))
                    (t\<lparr>outbound_cipher := outbound_args info t mv,
                       seqno_out := seqno_after_newkeys t,
                       effects := effects t @ outbound_prefix t @
                      cipher_events (local_cipher t) info
                        (slot_for (server_mode t) ''B'' ''A'')
                        (slot_for (server_mode t) ''D'' ''C'') @ mev @
                      [Set_outbound_cipher (outbound_args info t mv)]\<rparr>)
                | Some (c_out, c_in) \<Rightarrow>
                    if ext_info_wanted t \<and> \<not> can_send (outbound_args info t mv)
                    then Raised TypeError
                      (t\<lparr>in_kex := need_rekey t \<and> in_kex t,
                         outbound_cipher := outbound_args info t mv,
                         seqno_out := seqno_after_newkeys t,
                         effects := effects t @ outbound_prefix t @
                        cipher_events (local_cipher t) info
                          (slot_for (server_mode t) ''B'' ''A'')
                          (slot_for (server_mode t) ''D'' ''C'') @ mev @
                        [Set_outbound_cipher (outbound_args info t mv)] @
                        compressor_events Set_outbound_compressor
                          ''Switching on outbound compression ...''
                          c_out (local_compression t) (authenticated t)\<rparr>)
                    else Returned
                      (t\<lparr>in_kex := need_rekey t \<and> in_kex t,
                         outbound_cipher := outbound_args info t mv,
                         seqno_out := (if ext_info_wanted t
                                       then (seqno_after_newkeys t + 1) mod 2 ^ 32
                                       else seqno_after_newkeys t),
                         effects := effects t @ outbound_prefix t @
                        cipher_events (local_cipher t) info
                          (slot_for (server_mode t) ''B'' ''A'')
                          (slot_for (server_mode t) ''D'' ''C'') @ mev @
                        [Set_outbound_cipher (outbound_args info t mv)] @
                        compressor_events Set_outbound_compressor
                          ''Switching on outbound compression ...''
                          c_out (local_compression t) (authenticated t) @
                        ext_info_events t @ [Expect_packet MSG_NEWKEYS]\<rparr>)))))"
proof (cases "can_send (outbound_cipher t)")
  case False
  then show ?thesis
    by (simp add: null_activate_outbound_def emit_def send_newkeys_eq)
next
  case True
  note cs = True
  show ?thesis
  proof (cases "map_of (cipher_info reg) (local_cipher t)")
    case None
    with cs show ?thesis
      by (simp add: null_activate_outbound_def emit_def send_newkeys_eq outbound_prefix_def)
  next
    case (Some info)
    have a: "(case info_is_aead info of None \<Rightarrow> False | Some b \<Rightarrow> b) = is_aead_of info"
      by (simp add: is_aead_of_def)
    show ?thesis
    proof (cases "mac_values reg (local_mac t) (is_aead_of info)
        (slot_for (server_mode t) ''F'' ''E'')")
      case (Inl e)
      with cs Some show ?thesis
        by (simp add: null_activate_outbound_def emit_def a send_newkeys_eq outbound_prefix_def
            cipher_setup_out_eq mac_setup_eq Let_def
            split: prod.split split del: if_split)
    next
      case (Inr r)
      obtain mv mev where r: "r = (mv, mev)" by (cases r)
      obtain me mk ms et where mv: "mv = (me, mk, ms, et)" by (cases mv) auto
      from cs Some Inr r mv show ?thesis
        by (simp add: null_activate_outbound_def emit_def a send_newkeys_eq outbound_prefix_def
            cipher_setup_out_eq mac_setup_eq compression_out_eq final_steps_eq
            outbound_args_def set_outbound_cipher_def Let_def
            split: option.split prod.split split del: if_split cong: if_cong;
            simp)
    qed
  qed
qed

lemma emitted_simps [simp]:
  "emitted t (Returned t') = drop (length (effects t)) (effects t')"
  "emitted t (Raised e t') = drop (length (effects t)) (effects t')"
  by (simp_all add: emitted_def)

section \<open>The example inputs, evaluated\<close>

lemma example_registry_eq:
  "example_registry =
     \<lparr>cipher_info =
        [(''aes128-ctr'',
          \<lparr>info_class = Some ''AES'', info_mode = Some ''CTR'', info_block_size = 16,
           info_key_size = 16, info_iv_size = None, info_is_aead = None\<rparr>),
         (''aes128-gcm@openssh.com'',
          \<lparr>info_class = Some ''AESGCM'', info_mode = None, info_block_size = 16,
           info_key_size = 16, info_iv_size = Some 12, info_is_aead = Some True\<rparr>),
         (''none'', none_cipher_entry)],
      mac_info =
        [(''hmac-sha2-256'',
          \<lparr>info_mac_class = Some \<lparr>hash_name = ''sha256'', digest_size = 32\<rparr>,
           info_mac_size = 32\<rparr>),
         (''hmac-sha2-256-etm@openssh.com'',
          \<lparr>info_mac_class = Some \<lparr>hash_name = ''sha256'', digest_size = 32\<rparr>,
           info_mac_size = 32\<rparr>),
         (''none'', none_mac_entry)],
      compression_info =
        [(''zlib@openssh.com'', (Some ''ZlibCompressor'', Some ''ZlibDecompressor'')),
         (''zlib'', (Some ''ZlibCompressor'', Some ''ZlibDecompressor'')),
         (''none'', (None, None))]\<rparr>"
  by (simp add: example_registry_def init_def library_registry_def Let_def)

lemma example_lookups [simp]:
  "map_of (cipher_info example_registry) ''none'' = Some none_cipher_entry"
  "map_of (cipher_info example_registry) ''aes128-ctr'' =
     Some \<lparr>info_class = Some ''AES'', info_mode = Some ''CTR'', info_block_size = 16,
           info_key_size = 16, info_iv_size = None, info_is_aead = None\<rparr>"
  "map_of (mac_info example_registry) ''none'' = Some none_mac_entry"
  "map_of (mac_info example_registry) ''hmac-sha2-256'' =
     Some \<lparr>info_mac_class = Some \<lparr>hash_name = ''sha256'', digest_size = 32\<rparr>,
           info_mac_size = 32\<rparr>"
  "map_of (compression_info example_registry) ''none'' = Some (None, None)"
  "map_of (compression_info example_registry) ''zlib@openssh.com'' =
     Some (Some ''ZlibCompressor'', Some ''ZlibDecompressor'')"
  by (simp_all add: example_registry_eq)

lemma example_server_fields [simp]:
  "server_mode example_server" "\<not> authenticated example_server"
  "agreed_on_strict_kex example_server" "in_kex example_server"
  "server_sig_algs example_server" "remote_ext_info example_server = Some ''ext-info-c''"
  "preferred_pubkeys example_server = [''ssh-ed25519'', ''rsa-sha2-512'']"
  "local_cipher example_server = ''none''" "remote_cipher example_server = ''none''"
  "local_mac example_server = ''none''" "remote_mac example_server = ''none''"
  "local_compression example_server = ''none''" "remote_compression example_server = ''none''"
  "\<not> need_rekey example_server" "outbound_cipher example_server = plain_outbound"
  "inbound_cipher example_server = plain_inbound"
  "seqno_out example_server = 3" "seqno_in example_server = 3" "effects example_server = []"
  by (simp_all add: example_server_def)

lemma can_send_plain [simp]: "can_send plain_outbound"
  by (simp add: can_send_def plain_outbound_def)

lemma none_entry_facts [simp]:
  "\<not> is_aead_of none_cipher_entry" "info_block_size none_cipher_entry = 8"
  "info_key_size none_cipher_entry = 0" "iv_size_of none_cipher_entry = 0"
  by (simp_all add: is_aead_of_def iv_size_of_def none_cipher_entry_def)

lemma mac_values_none:
  "mac_values reg ''none'' a slot = Inr ((None, None, (if a then 16 else 0), False), [])"
  by (simp add: mac_values_def)

section \<open>Choice of the activation path\<close>

text \<open>
  C1. At every activation, \<^verbatim>\<open>_activate_inbound\<close> runs the custom branch exactly when
  the remote cipher or the remote MAC is \<^verbatim>\<open>none\<close>, and \<^verbatim>\<open>_activate_outbound\<close> exactly
  when the local cipher or the local MAC is \<^verbatim>\<open>none\<close>. In every other case the result
  is the result of the parent's method, called on the transport as it is (one debug
  line is logged before the call).
\<close>

theorem activation_dispatch:
  "(remote_cipher t = ''none'' \<or> remote_mac t = ''none'' \<longrightarrow>
      activate_inbound P reg t = null_activate_inbound reg t) \<and>
   (remote_cipher t \<noteq> ''none'' \<and> remote_mac t \<noteq> ''none'' \<longrightarrow>
      activate_inbound P reg t =
        super_activate_inbound P reg
          (t\<lparr>effects := effects t @
               [Log ''Activating inbound stream using superclass method.'']\<rparr>)) \<and>
   (local_cipher t = ''none'' \<or> local_mac t = ''none'' \<longrightarrow>
      activate_outbound P reg t = null_activate_outbound reg t) \<and>
   (local_cipher t \<noteq> ''none'' \<and> local_mac t \<noteq> ''none'' \<longrightarrow>
      activate_outbound P reg t =
        super_activate_outbound P reg
          (t\<lparr>effects := effects t @
               [Log ''Activating outbound stream using superclass method.'']\<rparr>))"
  by (simp add: activate_inbound_def activate_outbound_def emit_def)

theorem activation_dispatch_witness:
  "remote_cipher example_server = ''none'' \<and> local_mac example_server = ''none'' \<and>
   activate_inbound example_parent example_registry example_server =
     null_activate_inbound example_registry example_server \<and>
   activate_outbound example_parent example_registry example_server =
     null_activate_outbound example_registry example_server \<and>
   activate_inbound example_parent example_registry
     (example_server\<lparr>remote_cipher := ''aes128-ctr'', remote_mac := ''hmac-sha2-256''\<rparr>) =
     Returned (example_server\<lparr>remote_cipher := ''aes128-ctr'', remote_mac := ''hmac-sha2-256'',
        effects := [Log ''Activating inbound stream using superclass method.'']\<rparr>) \<and>
   activate_outbound example_parent example_registry
     (example_server\<lparr>local_cipher := ''aes128-ctr'', local_mac := ''hmac-sha2-256''\<rparr>) =
     Returned (example_server\<lparr>local_cipher := ''aes128-ctr'', local_mac := ''hmac-sha2-256'',
        effects := [Log ''Activating outbound stream using superclass method.'']\<rparr>)"
  using activation_dispatch [of example_server example_parent example_registry]
    activation_dispatch
      [of "example_server\<lparr>remote_cipher := ''aes128-ctr'', remote_mac := ''hmac-sha2-256''\<rparr>"
          example_parent example_registry]
    activation_dispatch
      [of "example_server\<lparr>local_cipher := ''aes128-ctr'', local_mac := ''hmac-sha2-256''\<rparr>"
          example_parent example_registry]
  by (simp add: example_server_def example_parent_def)

section \<open>The demo server's handler\<close>

text \<open>
  C8. \<^verbatim>\<open>AllowAllServer\<close> answers success to the method \<^verbatim>\<open>none\<close> for every user name,
  failure to \<^verbatim>\<open>password\<close> and \<^verbatim>\<open>publickey\<close> for every user name and credential, and
  names \<^verbatim>\<open>none\<close> as the only method available; it accepts a channel of kind
  \<^verbatim>\<open>session\<close> and refuses every other kind as administratively prohibited.
\<close>

theorem allow_all_server_decisions:
  "fst (check_auth_none s username) = AUTH_SUCCESSFUL \<and>
   check_auth_password s username password = AUTH_FAILED \<and>
   check_auth_publickey s username key = AUTH_FAILED \<and>
   split_commas (get_allowed_auths s username) = [''none''] \<and>
   check_channel_request s ''session'' chanid = OPEN_SUCCEEDED \<and>
   (kind \<noteq> ''session'' \<longrightarrow>
      check_channel_request s kind chanid = OPEN_FAILED_ADMINISTRATIVELY_PROHIBITED)"
  by (simp add: check_auth_none_def check_auth_password_def check_auth_publickey_def
      get_allowed_auths_def split_commas_def check_channel_request_def)

theorem allow_all_server_decisions_witness:
  "''direct-tcpip'' \<noteq> ''session'' \<and>
   check_channel_request \<lparr>event_set = False\<rparr> ''direct-tcpip'' 1 =
     OPEN_FAILED_ADMINISTRATIVELY_PROHIBITED \<and>
   fst (check_auth_none \<lparr>event_set = False\<rparr> ''testuser'') = AUTH_SUCCESSFUL \<and>
   check_auth_password \<lparr>event_set = False\<rparr> ''testuser'' ''secret'' = AUTH_FAILED"
  using allow_all_server_decisions
    [of "\<lparr>event_set = False\<rparr>" "''testuser''" "''secret''" "()" 1 "''direct-tcpip''"]
  by simp

section \<open>Effects of the custom branches\<close>

lemma key_derivations_cipher_events:
  "key_derivations (cipher_events name info iv_slot key_slot) =
     (if name = ''none'' then []
      else [(iv_slot, iv_size_of info), (key_slot, info_key_size info)])"
  by (simp add: cipher_events_def)

lemma key_derivations_compressor_events [simp]:
  "key_derivations (compressor_events Set_inbound_compressor msg cls name auth) = []"
  "key_derivations (compressor_events Set_outbound_compressor msg cls name auth) = []"
  by (simp_all add: compressor_events_def split: option.split)

lemma key_derivations_strict_events [simp]:
  "key_derivations (strict_events b msg Reset_seqno_in) = []"
  "key_derivations (strict_events b msg Reset_seqno_out) = []"
  by (simp_all add: strict_events_def)

lemma key_derivations_ext_info_events [simp]:
  "key_derivations (ext_info_events t) = []"
  by (simp add: ext_info_events_def)

lemma key_derivations_outbound_prefix [simp]:
  "key_derivations (outbound_prefix t) = []"
  by (simp add: outbound_prefix_def)

lemma mac_values_events:
  "mac_values reg name a slot = Inr (mv, mev) \<Longrightarrow>
     mev = map (\<lambda>(s, n). Compute_key s n) (mac_derivations reg name a slot)"
  by (auto simp: mac_values_def mac_derivations_def split: if_splits option.splits)

lemma mac_values_Inl_derivations:
  "mac_values reg name a slot = Inl e \<Longrightarrow> mac_derivations reg name a slot = []"
  by (auto simp: mac_values_def mac_derivations_def split: if_splits option.splits)

lemma key_derivations_key_events [simp]:
  "key_derivations (map (\<lambda>(s, n). Compute_key s n) xs) = xs"
  by (induction xs) auto

lemma mac_values_cases:
  obtains e where "mac_values reg name a slot = Inl e" "mac_derivations reg name a slot = []"
  | mv where "mac_values reg name a slot =
      Inr (mv, map (\<lambda>(s, n). Compute_key s n) (mac_derivations reg name a slot))"
proof (cases "mac_values reg name a slot")
  case (Inl e)
  then show ?thesis using that(1) mac_values_Inl_derivations by blast
next
  case (Inr r)
  obtain mv mev where "r = (mv, mev)" by (cases r)
  with Inr show ?thesis using that(2) mac_values_events by blast
qed

subsection \<open>Key derivation calls\<close>

lemma key_derivations_inbound:
  assumes "map_of (cipher_info reg) (remote_cipher t) = Some info"
  shows "key_derivations (emitted t (null_activate_inbound reg t)) =
      (if remote_cipher t = ''none'' then []
       else [(slot_for (server_mode t) ''A'' ''B'', iv_size_of info),
             (slot_for (server_mode t) ''C'' ''D'', info_key_size info)])
      @ mac_derivations reg (remote_mac t) (is_aead_of info)
          (slot_for (server_mode t) ''E'' ''F'')"
  using assms
  by (cases rule: mac_values_cases [of reg "remote_mac t" "is_aead_of info"
        "slot_for (server_mode t) ''E'' ''F''"])
    (simp_all add: null_activate_inbound_eq key_derivations_cipher_events split: option.split)

lemma key_derivations_outbound:
  assumes "map_of (cipher_info reg) (local_cipher t) = Some info"
  shows "key_derivations (emitted t (null_activate_outbound reg t)) =
      (if can_send (outbound_cipher t) then
         (if local_cipher t = ''none'' then []
          else [(slot_for (server_mode t) ''B'' ''A'', iv_size_of info),
                (slot_for (server_mode t) ''D'' ''C'', info_key_size info)])
         @ mac_derivations reg (local_mac t) (is_aead_of info)
             (slot_for (server_mode t) ''F'' ''E'')
       else [])"
  using assms
  by (cases rule: mac_values_cases [of reg "local_mac t" "is_aead_of info"
        "slot_for (server_mode t) ''F'' ''E''"])
    (simp_all add: null_activate_outbound_eq key_derivations_cipher_events split: option.split)

text \<open>
  C3, as amended. In the custom branch the IV and the encryption key of a direction are
  derived (slots A and C, or B and D, by role and direction) exactly when that
  direction's cipher is not \<^verbatim>\<open>none\<close>: for the cipher \<^verbatim>\<open>none\<close> the two calls of
  \<^verbatim>\<open>_compute_key\<close> are skipped, not made and discarded. The integrity key (slot E or
  F) is derived exactly when the MAC is not \<^verbatim>\<open>none\<close>, the cipher is not AEAD and the
  MAC table has a class for the name. The outbound branch derives nothing at all when
  its first step, sending NEWKEYS, raises.
\<close>

theorem key_derivation_calls:
  "(remote_cipher t = ''none'' \<or> remote_mac t = ''none'' \<longrightarrow>
    map_of (cipher_info reg) (remote_cipher t) = Some info \<longrightarrow>
      key_derivations (emitted t (activate_inbound P reg t)) =
        (if remote_cipher t = ''none'' then []
         else [(if server_mode t then ''A'' else ''B'', iv_size_of info),
               (if server_mode t then ''C'' else ''D'', info_key_size info)])
        @ mac_derivations reg (remote_mac t) (is_aead_of info)
            (if server_mode t then ''E'' else ''F'')) \<and>
   (local_cipher t = ''none'' \<or> local_mac t = ''none'' \<longrightarrow>
    map_of (cipher_info reg) (local_cipher t) = Some info' \<longrightarrow>
      key_derivations (emitted t (activate_outbound P reg t)) =
        (if can_send (outbound_cipher t) then
           (if local_cipher t = ''none'' then []
            else [(if server_mode t then ''B'' else ''A'', iv_size_of info'),
                  (if server_mode t then ''D'' else ''C'', info_key_size info')])
           @ mac_derivations reg (local_mac t) (is_aead_of info')
               (if server_mode t then ''F'' else ''E'')
         else []))"
  by (simp add: activate_inbound_def activate_outbound_def key_derivations_inbound
      key_derivations_outbound slot_for_def)

theorem key_derivation_calls_witness:
  "remote_cipher example_server = ''none'' \<and>
   key_derivations (emitted example_server
     (activate_inbound example_parent example_registry example_server)) = [] \<and>
   remote_cipher (example_server\<lparr>remote_mac := ''hmac-sha2-256''\<rparr>) = ''none'' \<and>
   key_derivations (emitted (example_server\<lparr>remote_mac := ''hmac-sha2-256''\<rparr>)
     (activate_inbound example_parent example_registry
        (example_server\<lparr>remote_mac := ''hmac-sha2-256''\<rparr>))) = [(''E'', 32)] \<and>
   local_mac (example_server\<lparr>local_cipher := ''aes128-ctr''\<rparr>) = ''none'' \<and>
   can_send (outbound_cipher (example_server\<lparr>local_cipher := ''aes128-ctr''\<rparr>)) \<and>
   key_derivations (emitted (example_server\<lparr>local_cipher := ''aes128-ctr''\<rparr>)
     (activate_outbound example_parent example_registry
        (example_server\<lparr>local_cipher := ''aes128-ctr''\<rparr>))) = [(''B'', 16), (''D'', 16)]"
  using key_derivation_calls
      [where t = example_server and reg = example_registry and info = none_cipher_entry
         and P = example_parent and info' = none_cipher_entry]
    key_derivation_calls
      [where t = "example_server\<lparr>remote_mac := ''hmac-sha2-256''\<rparr>"
         and reg = example_registry and info = none_cipher_entry and P = example_parent
         and info' = none_cipher_entry]
    key_derivation_calls
      [where t = "example_server\<lparr>local_cipher := ''aes128-ctr''\<rparr>"
         and reg = example_registry and info = none_cipher_entry and P = example_parent
         and info' = "\<lparr>info_class = Some ''AES'', info_mode = Some ''CTR'',
           info_block_size = 16, info_key_size = 16, info_iv_size = None,
           info_is_aead = None\<rparr>"]
  by (simp add: mac_derivations_def iv_size_of_def is_aead_of_def none_cipher_entry_def)

text \<open>
  C3, as stated, fails: with \<^verbatim>\<open>none\<close> negotiated as the cipher of both directions,
  both activations return and neither makes a single key derivation call.
\<close>

theorem key_derivation_skipped_counterexample:
  "remote_cipher example_server = ''none'' \<and> local_cipher example_server = ''none'' \<and>
   returned (activate_inbound example_parent example_registry example_server) \<and>
   returned (activate_outbound example_parent example_registry example_server) \<and>
   key_derivations (emitted example_server
     (activate_inbound example_parent example_registry example_server)) = [] \<and>
   key_derivations (emitted example_server
     (activate_outbound example_parent example_registry example_server)) = []"
proof -
  have i: "returned (null_activate_inbound example_registry example_server)"
    by (simp add: null_activate_inbound_eq mac_values_none)
  have ob: "returned (null_activate_outbound example_registry example_server)"
    by (simp add: null_activate_outbound_eq mac_values_none outbound_args_def can_send_def
        cipher_values_def plain_outbound_def)
  show ?thesis
    by (simp add: activate_inbound_def activate_outbound_def i ob
        key_derivations_inbound [where info = none_cipher_entry]
        key_derivations_outbound [where info = none_cipher_entry] mac_derivations_def)
qed

subsection \<open>Sequence number resets\<close>

lemma count_list_key_events [simp]:
  "count_list (map (\<lambda>(s, n). Compute_key s n) xs) Reset_seqno_in = 0"
  "count_list (map (\<lambda>(s, n). Compute_key s n) xs) Reset_seqno_out = 0"
  by (induction xs) auto

lemma count_list_cipher_events [simp]:
  "count_list (cipher_events name info a b) Reset_seqno_in = 0"
  "count_list (cipher_events name info a b) Reset_seqno_out = 0"
  by (simp_all add: cipher_events_def)

lemma count_list_compressor_events [simp]:
  "count_list (compressor_events Set_inbound_compressor msg cls name auth) Reset_seqno_in = 0"
  "count_list (compressor_events Set_inbound_compressor msg cls name auth) Reset_seqno_out = 0"
  "count_list (compressor_events Set_outbound_compressor msg cls name auth) Reset_seqno_in = 0"
  "count_list (compressor_events Set_outbound_compressor msg cls name auth) Reset_seqno_out = 0"
  by (simp_all add: compressor_events_def split: option.split)

lemma count_list_ext_info_events [simp]:
  "count_list (ext_info_events t) Reset_seqno_in = 0"
  "count_list (ext_info_events t) Reset_seqno_out = 0"
  by (simp_all add: ext_info_events_def)

lemma count_list_outbound_prefix [simp]:
  "count_list (outbound_prefix t) Reset_seqno_in = 0"
  "count_list (outbound_prefix t) Reset_seqno_out = (if agreed_on_strict_kex t then 1 else 0)"
  by (simp_all add: outbound_prefix_def strict_events_def)

lemma count_list_strict_events_in [simp]:
  "count_list (strict_events b msg Reset_seqno_in) Reset_seqno_in = (if b then 1 else 0)"
  "count_list (strict_events b msg Reset_seqno_in) Reset_seqno_out = 0"
  by (simp_all add: strict_events_def)

lemma without_logs_outbound_prefix:
  "without_logs (outbound_prefix t) =
     Send_message newkeys_message # (if agreed_on_strict_kex t then [Reset_seqno_out] else [])"
  by (simp add: outbound_prefix_def strict_events_def)

lemma sent_messages_key_events [simp]:
  "sent_messages (map (\<lambda>(s, n). Compute_key s n) xs) = []"
  by (induction xs) auto

lemma sent_messages_cipher_events [simp]:
  "sent_messages (cipher_events name info a b) = []"
  by (simp add: cipher_events_def)

lemma sent_messages_compressor_events [simp]:
  "sent_messages (compressor_events Set_outbound_compressor msg cls name auth) = []"
  by (simp add: compressor_events_def split: option.split)

lemma sent_messages_outbound_prefix [simp]:
  "sent_messages (outbound_prefix t) = [newkeys_message]"
  by (simp add: outbound_prefix_def strict_events_def)

lemma sent_messages_ext_info_events:
  "sent_messages (ext_info_events t) = (if ext_info_wanted t then [ext_info_message t] else [])"
  by (simp add: ext_info_events_def)

lemma seqno_inbound:
  "count_list (emitted t (null_activate_inbound reg t)) Reset_seqno_out = 0 \<and>
   count_list (emitted t (null_activate_inbound reg t)) Reset_seqno_in =
     (if agreed_on_strict_kex t \<and> returned (null_activate_inbound reg t) then 1 else 0) \<and>
   (agreed_on_strict_kex t \<and> returned (null_activate_inbound reg t) \<longrightarrow>
      last (emitted t (null_activate_inbound reg t)) = Reset_seqno_in \<and>
      seqno_in (state_of (null_activate_inbound reg t)) = 0) \<and>
   (\<not> agreed_on_strict_kex t \<longrightarrow>
      seqno_in (state_of (null_activate_inbound reg t)) = seqno_in t) \<and>
   seqno_out (state_of (null_activate_inbound reg t)) = seqno_out t"
proof (cases "map_of (cipher_info reg) (remote_cipher t)")
  case None
  then show ?thesis by (simp add: null_activate_inbound_eq)
next
  case (Some info)
  then show ?thesis
    by (cases rule: mac_values_cases [of reg "remote_mac t" "is_aead_of info"
          "slot_for (server_mode t) ''E'' ''F''"])
      (simp_all add: null_activate_inbound_eq strict_events_def split: option.split)
qed

lemma seqno_outbound:
  "count_list (emitted t (null_activate_outbound reg t)) Reset_seqno_in = 0 \<and>
   count_list (emitted t (null_activate_outbound reg t)) Reset_seqno_out =
     (if agreed_on_strict_kex t \<and> can_send (outbound_cipher t) then 1 else 0) \<and>
   (agreed_on_strict_kex t \<and> can_send (outbound_cipher t) \<longrightarrow>
      take 2 (without_logs (emitted t (null_activate_outbound reg t))) =
        [Send_message newkeys_message, Reset_seqno_out]) \<and>
   seqno_out (state_of (null_activate_outbound reg t)) =
     (if \<not> can_send (outbound_cipher t) then seqno_out t
      else if agreed_on_strict_kex t
        then length (sent_messages (emitted t (null_activate_outbound reg t))) - 1
        else (seqno_out t + length (sent_messages (emitted t (null_activate_outbound reg t))))
               mod 2 ^ 32) \<and>
   seqno_in (state_of (null_activate_outbound reg t)) = seqno_in t"
proof (cases "map_of (cipher_info reg) (local_cipher t)")
  case None
  then show ?thesis
    by (simp add: null_activate_outbound_eq without_logs_outbound_prefix seqno_after_newkeys_def)
next
  case (Some info)
  then show ?thesis
    by (cases rule: mac_values_cases [of reg "local_mac t" "is_aead_of info"
          "slot_for (server_mode t) ''F'' ''E''"])
      (simp_all add: null_activate_outbound_eq without_logs_outbound_prefix
        seqno_after_newkeys_def sent_messages_ext_info_events mod_Suc_eq
        split: option.split)
qed

text \<open>
  C4. A sequence number is reset only when strict key exchange was agreed, and then
  once. The custom outbound branch resets the outbound counter to zero as its first
  step after sending NEWKEYS, the custom inbound branch resets the inbound counter to
  zero as its last step, when it returns; neither touches the counter of the other
  direction, and without strict key exchange the counters only count the messages
  sent. An activation that delegates does what the parent's method does: the parent's
  methods are taken to keep the same discipline, and then every activation keeps it.
\<close>

theorem strict_kex_seqno_reset:
  assumes par_in: "\<And>reg t. \<exists>es.
      effects (state_of (super_activate_inbound P reg t)) = effects t @ es \<and>
      count_list es Reset_seqno_out = 0 \<and>
      count_list es Reset_seqno_in \<le> (if agreed_on_strict_kex t then 1 else 0)"
    and par_out: "\<And>reg t. \<exists>es.
      effects (state_of (super_activate_outbound P reg t)) = effects t @ es \<and>
      count_list es Reset_seqno_in = 0 \<and>
      count_list es Reset_seqno_out \<le> (if agreed_on_strict_kex t then 1 else 0)"
  shows
   "count_list (emitted t (activate_inbound P reg t)) Reset_seqno_out = 0 \<and>
    count_list (emitted t (activate_inbound P reg t)) Reset_seqno_in
      \<le> (if agreed_on_strict_kex t then 1 else 0) \<and>
    count_list (emitted t (activate_outbound P reg t)) Reset_seqno_in = 0 \<and>
    count_list (emitted t (activate_outbound P reg t)) Reset_seqno_out
      \<le> (if agreed_on_strict_kex t then 1 else 0) \<and>
    (remote_cipher t = ''none'' \<or> remote_mac t = ''none'' \<longrightarrow>
       count_list (emitted t (activate_inbound P reg t)) Reset_seqno_in =
         (if agreed_on_strict_kex t \<and> returned (activate_inbound P reg t) then 1 else 0) \<and>
       (agreed_on_strict_kex t \<and> returned (activate_inbound P reg t) \<longrightarrow>
          last (emitted t (activate_inbound P reg t)) = Reset_seqno_in \<and>
          seqno_in (state_of (activate_inbound P reg t)) = 0) \<and>
       (\<not> agreed_on_strict_kex t \<longrightarrow>
          seqno_in (state_of (activate_inbound P reg t)) = seqno_in t) \<and>
       seqno_out (state_of (activate_inbound P reg t)) = seqno_out t) \<and>
    (local_cipher t = ''none'' \<or> local_mac t = ''none'' \<longrightarrow>
       count_list (emitted t (activate_outbound P reg t)) Reset_seqno_out =
         (if agreed_on_strict_kex t \<and> can_send (outbound_cipher t) then 1 else 0) \<and>
       (agreed_on_strict_kex t \<and> can_send (outbound_cipher t) \<longrightarrow>
          take 2 (without_logs (emitted t (activate_outbound P reg t))) =
            [Send_message [Add_byte MSG_NEWKEYS], Reset_seqno_out]) \<and>
       seqno_out (state_of (activate_outbound P reg t)) =
         (if \<not> can_send (outbound_cipher t) then seqno_out t
          else if agreed_on_strict_kex t
            then length (sent_messages (emitted t (activate_outbound P reg t))) - 1
            else (seqno_out t + length (sent_messages (emitted t (activate_outbound P reg t))))
                   mod 2 ^ 32) \<and>
       seqno_in (state_of (activate_outbound P reg t)) = seqno_in t)"
proof -
  let ?ti = "emit (Log ''Activating inbound stream using superclass method.'') t"
  let ?to = "emit (Log ''Activating outbound stream using superclass method.'') t"
  from par_in [of reg ?ti] obtain es where
    es: "effects (state_of (super_activate_inbound P reg ?ti)) = effects ?ti @ es"
      "count_list es Reset_seqno_out = 0"
      "count_list es Reset_seqno_in \<le> (if agreed_on_strict_kex t then 1 else 0)"
    by (auto simp: emit_def)
  from par_out [of reg ?to] obtain fs where
    fs: "effects (state_of (super_activate_outbound P reg ?to)) = effects ?to @ fs"
      "count_list fs Reset_seqno_in = 0"
      "count_list fs Reset_seqno_out \<le> (if agreed_on_strict_kex t then 1 else 0)"
    by (auto simp: emit_def)
  have di: "emitted t (super_activate_inbound P reg ?ti) =
      Log ''Activating inbound stream using superclass method.'' # es"
    using es(1) by (simp add: emitted_def emit_def)
  have do: "emitted t (super_activate_outbound P reg ?to) =
      Log ''Activating outbound stream using superclass method.'' # fs"
    using fs(1) by (simp add: emitted_def emit_def)
  have gi: "count_list (emitted t (activate_inbound P reg t)) Reset_seqno_out = 0 \<and>
      count_list (emitted t (activate_inbound P reg t)) Reset_seqno_in
        \<le> (if agreed_on_strict_kex t then 1 else 0)"
    using seqno_inbound [of t reg] es(2,3)
    by (auto simp add: activate_inbound_def di simp del: emitted_simps split: if_splits)
  have go: "count_list (emitted t (activate_outbound P reg t)) Reset_seqno_in = 0 \<and>
      count_list (emitted t (activate_outbound P reg t)) Reset_seqno_out
        \<le> (if agreed_on_strict_kex t then 1 else 0)"
    using seqno_outbound [of t reg] fs(2,3)
    by (auto simp add: activate_outbound_def do simp del: emitted_simps split: if_splits)
  show ?thesis
    using gi go seqno_inbound [of t reg] seqno_outbound [of t reg]
    by (simp add: activate_inbound_def activate_outbound_def newkeys_message_def
        del: emitted_simps)
qed

theorem strict_kex_seqno_reset_witness:
  "remote_cipher example_server = ''none'' \<and> local_cipher example_server = ''none'' \<and>
   agreed_on_strict_kex example_server \<and> can_send (outbound_cipher example_server) \<and>
   returned (activate_inbound example_parent example_registry example_server) \<and>
   count_list (emitted example_server
     (activate_inbound example_parent example_registry example_server)) Reset_seqno_in = 1 \<and>
   last (emitted example_server
     (activate_inbound example_parent example_registry example_server)) = Reset_seqno_in \<and>
   seqno_in (state_of
     (activate_inbound example_parent example_registry example_server)) = 0 \<and>
   count_list (emitted example_server
     (activate_outbound example_parent example_registry example_server)) Reset_seqno_out = 1 \<and>
   take 2 (without_logs (emitted example_server
     (activate_outbound example_parent example_registry example_server))) =
     [Send_message [Add_byte MSG_NEWKEYS], Reset_seqno_out] \<and>
   count_list (emitted (example_server\<lparr>agreed_on_strict_kex := False\<rparr>)
     (activate_inbound example_parent example_registry
        (example_server\<lparr>agreed_on_strict_kex := False\<rparr>))) Reset_seqno_in = 0 \<and>
   seqno_in (state_of (activate_inbound example_parent example_registry
        (example_server\<lparr>agreed_on_strict_kex := False\<rparr>))) = 3 \<and>
   count_list (emitted (example_server\<lparr>agreed_on_strict_kex := False\<rparr>)
     (activate_outbound example_parent example_registry
        (example_server\<lparr>agreed_on_strict_kex := False\<rparr>))) Reset_seqno_out = 0 \<and>
   count_list (emitted
       (example_server\<lparr>remote_cipher := ''aes128-ctr'', remote_mac := ''hmac-sha2-256''\<rparr>)
     (activate_inbound example_parent example_registry
        (example_server\<lparr>remote_cipher := ''aes128-ctr'', remote_mac := ''hmac-sha2-256''\<rparr>)))
     Reset_seqno_in \<le> 1"
proof -
  have p: "\<exists>es. effects (state_of (super_activate_inbound example_parent reg t)) =
        effects t @ es \<and> count_list es Reset_seqno_out = 0 \<and>
        count_list es Reset_seqno_in \<le> (if agreed_on_strict_kex t then 1 else 0)"
    "\<exists>es. effects (state_of (super_activate_outbound example_parent reg t)) =
        effects t @ es \<and> count_list es Reset_seqno_in = 0 \<and>
        count_list es Reset_seqno_out \<le> (if agreed_on_strict_kex t then 1 else 0)"
    for reg t
    by (simp_all add: example_parent_def)
  have r: "returned (activate_inbound example_parent example_registry example_server)"
    by (simp add: activate_inbound_def null_activate_inbound_eq mac_values_none)
  show ?thesis
    using strict_kex_seqno_reset [of example_parent example_server example_registry, OF p]
      strict_kex_seqno_reset [of example_parent
        "example_server\<lparr>agreed_on_strict_kex := False\<rparr>" example_registry, OF p]
      strict_kex_seqno_reset [of example_parent
        "example_server\<lparr>remote_cipher := ''aes128-ctr'', remote_mac := ''hmac-sha2-256''\<rparr>"
        example_registry, OF p]
    by (simp add: r del: emitted_simps)
qed

subsection \<open>Messages sent by the outbound branch\<close>

lemma mac_values_Inr_iff:
  "(\<exists>r. mac_values reg name a slot = Inr r) = mac_lookup_succeeds reg name a"
  by (auto simp: mac_values_def mac_lookup_succeeds_def split: option.splits)

lemma mac_values_Inl_iff:
  "mac_values reg name a slot = Inl e \<Longrightarrow> \<not> mac_lookup_succeeds reg name a"
  using mac_values_Inr_iff [of reg name a slot] by auto

lemma mac_values_Inr_succeeds:
  "mac_values reg name a slot = Inr r \<Longrightarrow> mac_lookup_succeeds reg name a"
  using mac_values_Inr_iff [of reg name a slot] by blast

lemma can_send_outbound_args:
  assumes "mac_values reg (local_mac t) (is_aead_of info) slot = Inr (mv, mev)"
  shows "can_send (outbound_args info t mv) =
     (local_cipher t = ''none'' \<or> is_aead_of info \<or> local_mac t \<noteq> ''none'')"
  using assms
  by (auto simp: can_send_def outbound_args_def mac_values_def cipher_values_def get_engine_def
      split: if_splits option.splits)

lemma returned_outbound_iff:
  "returned (null_activate_outbound reg t) =
     (can_send (outbound_cipher t) \<and>
      (case map_of (cipher_info reg) (local_cipher t) of
         None \<Rightarrow> False
       | Some info \<Rightarrow>
           mac_lookup_succeeds reg (local_mac t) (is_aead_of info) \<and>
           map_of (compression_info reg) (local_compression t) \<noteq> None \<and>
           (ext_info_wanted t \<longrightarrow>
              local_cipher t = ''none'' \<or> is_aead_of info \<or> local_mac t \<noteq> ''none'')))"
proof (cases "map_of (cipher_info reg) (local_cipher t)")
  case None
  then show ?thesis by (simp add: null_activate_outbound_eq)
next
  case (Some info)
  show ?thesis
  proof (cases "mac_values reg (local_mac t) (is_aead_of info)
      (slot_for (server_mode t) ''F'' ''E'')")
    case (Inl e)
    with Some mac_values_Inl_iff [OF Inl] show ?thesis
      by (simp add: null_activate_outbound_eq)
  next
    case (Inr r)
    obtain mv mev where r: "r = (mv, mev)" by (cases r)
    from Inr have m: "mac_lookup_succeeds reg (local_mac t) (is_aead_of info)"
      using mac_values_Inr_iff [of reg "local_mac t" "is_aead_of info"
          "slot_for (server_mode t) ''F'' ''E''"] by auto
    from Some Inr r m can_send_outbound_args [OF Inr [unfolded r]] show ?thesis
      by (auto simp: null_activate_outbound_eq split: option.split)
  qed
qed

lemma sent_messages_outbound:
  "sent_messages (emitted t (null_activate_outbound reg t)) =
     (if \<not> can_send (outbound_cipher t) then []
      else newkeys_message #
        (if returned (null_activate_outbound reg t) \<and> ext_info_wanted t
         then [ext_info_message t] else []))"
proof (cases "map_of (cipher_info reg) (local_cipher t)")
  case None
  then show ?thesis by (simp add: null_activate_outbound_eq)
next
  case (Some info)
  then show ?thesis
    by (cases rule: mac_values_cases [of reg "local_mac t" "is_aead_of info"
          "slot_for (server_mode t) ''F'' ''E''"])
      (simp_all add: null_activate_outbound_eq sent_messages_ext_info_events
        split: option.split)
qed

lemma last_outbound:
  "returned (null_activate_outbound reg t) \<Longrightarrow>
     last (emitted t (null_activate_outbound reg t)) = Expect_packet MSG_NEWKEYS"
  by (auto simp: null_activate_outbound_eq split: option.splits sum.splits if_splits)

text \<open>
  C6, as amended. The custom outbound branch sends NEWKEYS first and then, as the next
  message, the extension message (the server signature algorithms, joined from
  \<^verbatim>\<open>preferred_pubkeys\<close>) exactly when it returns with the transport in server mode,
  \<^verbatim>\<open>server_sig_algs\<close> set and \<^verbatim>\<open>ext-info-c\<close> advertised by the peer; nothing else is
  sent, and the last step of a branch that returns expects the peer's NEWKEYS. The
  branch returns when NEWKEYS can be sent, the table lookups succeed and, if the
  extension message is due, the packetizer can send under the settings just made,
  which it cannot with a cipher engine, no AEAD and no MAC key. The condition does not
  look at whether the transport is authenticated or at how many activations came
  before.
\<close>

theorem ext_info_emission:
  "local_cipher t = ''none'' \<or> local_mac t = ''none'' \<longrightarrow>
     sent_messages (emitted t (activate_outbound P reg t)) =
       (if \<not> can_send (outbound_cipher t) then []
        else [Add_byte MSG_NEWKEYS] #
          (if returned (activate_outbound P reg t) \<and> server_mode t \<and> server_sig_algs t \<and>
              remote_ext_info t = Some ''ext-info-c''
           then [[Add_byte MSG_EXT_INFO, Add_int 1, Add_string ''server-sig-algs'',
                  Add_string (comma_join (preferred_pubkeys t))]]
           else [])) \<and>
     (returned (activate_outbound P reg t) \<longrightarrow>
        last (emitted t (activate_outbound P reg t)) = Expect_packet MSG_NEWKEYS) \<and>
     returned (activate_outbound P reg t) =
       (can_send (outbound_cipher t) \<and>
        (case map_of (cipher_info reg) (local_cipher t) of
           None \<Rightarrow> False
         | Some info \<Rightarrow>
             mac_lookup_succeeds reg (local_mac t) (is_aead_of info) \<and>
             map_of (compression_info reg) (local_compression t) \<noteq> None \<and>
             (server_mode t \<and> server_sig_algs t \<and> remote_ext_info t = Some ''ext-info-c'' \<longrightarrow>
                local_cipher t = ''none'' \<or> is_aead_of info \<or> local_mac t \<noteq> ''none'')))"
proof (rule impI)
  assume c: "local_cipher t = ''none'' \<or> local_mac t = ''none''"
  then have e: "activate_outbound P reg t = null_activate_outbound reg t"
    by (simp add: activate_outbound_def)
  have m: "sent_messages (emitted t (activate_outbound P reg t)) =
       (if \<not> can_send (outbound_cipher t) then []
        else [Add_byte MSG_NEWKEYS] #
          (if returned (activate_outbound P reg t) \<and> server_mode t \<and> server_sig_algs t \<and>
              remote_ext_info t = Some ''ext-info-c''
           then [[Add_byte MSG_EXT_INFO, Add_int 1, Add_string ''server-sig-algs'',
                  Add_string (comma_join (preferred_pubkeys t))]]
           else []))"
    unfolding e
    by (simp add: sent_messages_outbound ext_info_wanted_def ext_info_message_def
        newkeys_message_def del: emitted_simps)
  have l: "returned (activate_outbound P reg t) \<longrightarrow>
        last (emitted t (activate_outbound P reg t)) = Expect_packet MSG_NEWKEYS"
    unfolding e by (simp add: last_outbound del: emitted_simps)
  have r: "returned (activate_outbound P reg t) =
       (can_send (outbound_cipher t) \<and>
        (case map_of (cipher_info reg) (local_cipher t) of
           None \<Rightarrow> False
         | Some info \<Rightarrow>
             mac_lookup_succeeds reg (local_mac t) (is_aead_of info) \<and>
             map_of (compression_info reg) (local_compression t) \<noteq> None \<and>
             (server_mode t \<and> server_sig_algs t \<and> remote_ext_info t = Some ''ext-info-c'' \<longrightarrow>
                local_cipher t = ''none'' \<or> is_aead_of info \<or> local_mac t \<noteq> ''none'')))"
    unfolding e returned_outbound_iff ext_info_wanted_def ..
  from m l r show "sent_messages (emitted t (activate_outbound P reg t)) =
       (if \<not> can_send (outbound_cipher t) then []
        else [Add_byte MSG_NEWKEYS] #
          (if returned (activate_outbound P reg t) \<and> server_mode t \<and> server_sig_algs t \<and>
              remote_ext_info t = Some ''ext-info-c''
           then [[Add_byte MSG_EXT_INFO, Add_int 1, Add_string ''server-sig-algs'',
                  Add_string (comma_join (preferred_pubkeys t))]]
           else [])) \<and>
     (returned (activate_outbound P reg t) \<longrightarrow>
        last (emitted t (activate_outbound P reg t)) = Expect_packet MSG_NEWKEYS) \<and>
     returned (activate_outbound P reg t) =
       (can_send (outbound_cipher t) \<and>
        (case map_of (cipher_info reg) (local_cipher t) of
           None \<Rightarrow> False
         | Some info \<Rightarrow>
             mac_lookup_succeeds reg (local_mac t) (is_aead_of info) \<and>
             map_of (compression_info reg) (local_compression t) \<noteq> None \<and>
             (server_mode t \<and> server_sig_algs t \<and> remote_ext_info t = Some ''ext-info-c'' \<longrightarrow>
                local_cipher t = ''none'' \<or> is_aead_of info \<or> local_mac t \<noteq> ''none'')))"
    by (intro conjI)
qed

lemma example_first_activation:
  "activate_outbound example_parent example_registry example_server =
     Returned (example_server\<lparr>in_kex := False,
       outbound_cipher := \<lparr>block_engine = None, block_size = 8, mac_engine = None,
         mac_size = 0, mac_key = None, etm = False, aead = False, iv = None, sdctr = False\<rparr>,
       seqno_out := 1,
       effects :=
       [Log ''Activating outbound stream with 'none' algorithm.'',
        Send_message [Add_byte MSG_NEWKEYS],
        Log ''Resetting outbound seqno after NEWKEYS due to strict mode'',
        Reset_seqno_out,
        Set_outbound_cipher
          \<lparr>block_engine = None, block_size = 8, mac_engine = None, mac_size = 0,
           mac_key = None, etm = False, aead = False, iv = None, sdctr = False\<rparr>,
        Send_message [Add_byte MSG_EXT_INFO, Add_int 1, Add_string ''server-sig-algs'',
                      Add_string ''ssh-ed25519,rsa-sha2-512''],
        Expect_packet MSG_NEWKEYS]\<rparr>)"
  by (simp add: activate_outbound_def null_activate_outbound_eq mac_values_none
      outbound_prefix_def strict_events_def cipher_events_def outbound_args_def
      cipher_values_def compressor_events_def ext_info_events_def ext_info_message_def
      ext_info_wanted_def newkeys_message_def can_send_def seqno_after_newkeys_def
      plain_outbound_def)

theorem ext_info_emission_witness:
  "local_cipher example_server = ''none'' \<and> can_send (outbound_cipher example_server) \<and>
   returned (activate_outbound example_parent example_registry example_server) \<and>
   sent_messages (emitted example_server
      (activate_outbound example_parent example_registry example_server)) =
     [[Add_byte MSG_NEWKEYS],
      [Add_byte MSG_EXT_INFO, Add_int 1, Add_string ''server-sig-algs'',
       Add_string ''ssh-ed25519,rsa-sha2-512'']] \<and>
   last (emitted example_server
      (activate_outbound example_parent example_registry example_server)) =
     Expect_packet MSG_NEWKEYS \<and>
   returned (activate_outbound example_parent example_registry
         (example_server\<lparr>server_mode := False\<rparr>)) \<and>
   sent_messages (emitted (example_server\<lparr>server_mode := False\<rparr>)
      (activate_outbound example_parent example_registry
         (example_server\<lparr>server_mode := False\<rparr>))) = [[Add_byte MSG_NEWKEYS]] \<and>
   local_mac (example_server\<lparr>local_cipher := ''aes128-ctr''\<rparr>) = ''none'' \<and>
   \<not> returned (activate_outbound example_parent example_registry
         (example_server\<lparr>local_cipher := ''aes128-ctr''\<rparr>)) \<and>
   sent_messages (emitted (example_server\<lparr>local_cipher := ''aes128-ctr''\<rparr>)
      (activate_outbound example_parent example_registry
         (example_server\<lparr>local_cipher := ''aes128-ctr''\<rparr>))) = [[Add_byte MSG_NEWKEYS]]"
  using ext_info_emission [of example_server example_parent example_registry]
    ext_info_emission [of "example_server\<lparr>server_mode := False\<rparr>" example_parent
      example_registry]
    ext_info_emission [of "example_server\<lparr>local_cipher := ''aes128-ctr''\<rparr>" example_parent
      example_registry]
  by (simp add: mac_lookup_succeeds_def is_aead_of_def del: emitted_simps)

text \<open>
  C6, as stated, fails: a second outbound activation of the same server transport, after
  authentication, sends the extension message a second time.
\<close>

theorem ext_info_on_rekey_counterexample:
  "authenticated example_rekey \<and>
   returned (activate_outbound example_parent example_registry example_rekey) \<and>
   sent_messages (effects (state_of
      (activate_outbound example_parent example_registry example_rekey))) =
     [[Add_byte MSG_NEWKEYS],
      [Add_byte MSG_EXT_INFO, Add_int 1, Add_string ''server-sig-algs'',
       Add_string ''ssh-ed25519,rsa-sha2-512''],
      [Add_byte MSG_NEWKEYS],
      [Add_byte MSG_EXT_INFO, Add_int 1, Add_string ''server-sig-algs'',
       Add_string ''ssh-ed25519,rsa-sha2-512'']]"
  by (simp add: example_rekey_def example_first_activation activate_outbound_def
      null_activate_outbound_eq mac_values_none
      outbound_prefix_def strict_events_def cipher_events_def outbound_args_def
      cipher_values_def compressor_events_def ext_info_events_def ext_info_message_def
      ext_info_wanted_def newkeys_message_def can_send_def seqno_after_newkeys_def
      plain_outbound_def)

subsection \<open>Compression\<close>

lemma compressor_other_events [simp]:
  "Set_inbound_compressor c \<notin> (\<lambda>(s, n). Compute_key s n) ` A"
  "Set_outbound_compressor c \<notin> (\<lambda>(s, n). Compute_key s n) ` A"
  "Set_inbound_compressor c \<notin> set (cipher_events name info a b)"
  "Set_outbound_compressor c \<notin> set (cipher_events name info a b)"
  "Set_inbound_compressor c \<notin> set (strict_events s msg Reset_seqno_in)"
  "Set_outbound_compressor c \<notin> set (outbound_prefix t)"
  "Set_outbound_compressor c \<notin> set (ext_info_events t)"
  by (auto simp: cipher_events_def strict_events_def outbound_prefix_def ext_info_events_def)

lemma compressor_events_member:
  "(Set_inbound_compressor c \<in> set (compressor_events Set_inbound_compressor msg cls name auth)) =
     (cls = Some c \<and> (name \<noteq> ''zlib@openssh.com'' \<or> auth))"
  "(Set_outbound_compressor c \<in> set (compressor_events Set_outbound_compressor msg cls name auth)) =
     (cls = Some c \<and> (name \<noteq> ''zlib@openssh.com'' \<or> auth))"
  by (auto simp: compressor_events_def split: option.split)

lemma compressor_inbound:
  "(Set_inbound_compressor c \<in> set (emitted t (null_activate_inbound reg t))) =
     ((case map_of (cipher_info reg) (remote_cipher t) of
         None \<Rightarrow> False
       | Some info \<Rightarrow> mac_lookup_succeeds reg (remote_mac t) (is_aead_of info)) \<and>
      (\<exists>d. map_of (compression_info reg) (remote_compression t) = Some (d, Some c)) \<and>
      (remote_compression t \<noteq> ''zlib@openssh.com'' \<or> authenticated t))"
proof (cases "map_of (cipher_info reg) (remote_cipher t)")
  case None
  then show ?thesis by (simp add: null_activate_inbound_eq)
next
  case (Some info)
  show ?thesis
  proof (cases rule: mac_values_cases [of reg "remote_mac t" "is_aead_of info"
          "slot_for (server_mode t) ''E'' ''F''"])
    case (1 e)
    with Some mac_values_Inl_iff [OF 1(1)] show ?thesis
      by (simp add: null_activate_inbound_eq)
  next
    case (2 mv)
    then have "mac_lookup_succeeds reg (remote_mac t) (is_aead_of info)"
      by (rule mac_values_Inr_succeeds)
    with Some 2 show ?thesis
      by (simp add: null_activate_inbound_eq compressor_events_member split: option.split)
  qed
qed

lemma compressor_outbound:
  "(Set_outbound_compressor c \<in> set (emitted t (null_activate_outbound reg t))) =
     (can_send (outbound_cipher t) \<and>
      (case map_of (cipher_info reg) (local_cipher t) of
         None \<Rightarrow> False
       | Some info \<Rightarrow> mac_lookup_succeeds reg (local_mac t) (is_aead_of info)) \<and>
      (\<exists>d. map_of (compression_info reg) (local_compression t) = Some (Some c, d)) \<and>
      (local_compression t \<noteq> ''zlib@openssh.com'' \<or> authenticated t))"
proof (cases "map_of (cipher_info reg) (local_cipher t)")
  case None
  then show ?thesis by (simp add: null_activate_outbound_eq)
next
  case (Some info)
  show ?thesis
  proof (cases rule: mac_values_cases [of reg "local_mac t" "is_aead_of info"
          "slot_for (server_mode t) ''F'' ''E''"])
    case (1 e)
    with Some mac_values_Inl_iff [OF 1(1)] show ?thesis
      by (simp add: null_activate_outbound_eq)
  next
    case (2 mv)
    then have "mac_lookup_succeeds reg (local_mac t) (is_aead_of info)"
      by (rule mac_values_Inr_succeeds)
    with Some 2 show ?thesis
      by (simp add: null_activate_outbound_eq compressor_events_member split: option.split)
  qed
qed

text \<open>
  C10. In the custom branch a compressor is installed for a direction exactly when the
  branch gets as far as the compression step (NEWKEYS was sent, for the outbound
  branch, and the cipher and MAC lookups did not raise), the table gives a class for the
  direction's compression name, and the name is not \<^verbatim>\<open>zlib@openssh.com\<close> or the
  transport is authenticated. So a name whose class is \<^verbatim>\<open>None\<close>, as for \<^verbatim>\<open>none\<close>,
  installs nothing, and the delayed compression is switched on only after
  authentication. What the branch does after the compression step does not matter:
  the compressor stays installed when a later step raises.
\<close>

theorem compressor_installation:
  "(remote_cipher t = ''none'' \<or> remote_mac t = ''none'' \<longrightarrow>
      (Set_inbound_compressor c \<in> set (emitted t (activate_inbound P reg t))) =
        ((case map_of (cipher_info reg) (remote_cipher t) of
            None \<Rightarrow> False
          | Some info \<Rightarrow> mac_lookup_succeeds reg (remote_mac t) (is_aead_of info)) \<and>
         (\<exists>d. map_of (compression_info reg) (remote_compression t) = Some (d, Some c)) \<and>
         (remote_compression t \<noteq> ''zlib@openssh.com'' \<or> authenticated t))) \<and>
   (local_cipher t = ''none'' \<or> local_mac t = ''none'' \<longrightarrow>
      (Set_outbound_compressor c \<in> set (emitted t (activate_outbound P reg t))) =
        (can_send (outbound_cipher t) \<and>
         (case map_of (cipher_info reg) (local_cipher t) of
            None \<Rightarrow> False
          | Some info \<Rightarrow> mac_lookup_succeeds reg (local_mac t) (is_aead_of info)) \<and>
         (\<exists>d. map_of (compression_info reg) (local_compression t) = Some (Some c, d)) \<and>
         (local_compression t \<noteq> ''zlib@openssh.com'' \<or> authenticated t)))"
proof (intro conjI impI)
  assume "remote_cipher t = ''none'' \<or> remote_mac t = ''none''"
  then have "activate_inbound P reg t = null_activate_inbound reg t"
    by (simp add: activate_inbound_def)
  then show "(Set_inbound_compressor c \<in> set (emitted t (activate_inbound P reg t))) =
        ((case map_of (cipher_info reg) (remote_cipher t) of
            None \<Rightarrow> False
          | Some info \<Rightarrow> mac_lookup_succeeds reg (remote_mac t) (is_aead_of info)) \<and>
         (\<exists>d. map_of (compression_info reg) (remote_compression t) = Some (d, Some c)) \<and>
         (remote_compression t \<noteq> ''zlib@openssh.com'' \<or> authenticated t))"
    by (simp only: compressor_inbound)
next
  assume "local_cipher t = ''none'' \<or> local_mac t = ''none''"
  then have "activate_outbound P reg t = null_activate_outbound reg t"
    by (simp add: activate_outbound_def)
  then show "(Set_outbound_compressor c \<in> set (emitted t (activate_outbound P reg t))) =
        (can_send (outbound_cipher t) \<and>
         (case map_of (cipher_info reg) (local_cipher t) of
            None \<Rightarrow> False
          | Some info \<Rightarrow> mac_lookup_succeeds reg (local_mac t) (is_aead_of info)) \<and>
         (\<exists>d. map_of (compression_info reg) (local_compression t) = Some (Some c, d)) \<and>
         (local_compression t \<noteq> ''zlib@openssh.com'' \<or> authenticated t))"
    by (simp only: compressor_outbound)
qed

theorem compressor_installation_witness:
  "remote_cipher example_server = ''none'' \<and> local_cipher example_server = ''none'' \<and>
   Set_inbound_compressor ''ZlibDecompressor'' \<in> set
     (emitted (example_server\<lparr>authenticated := True, remote_compression := ''zlib@openssh.com''\<rparr>)
        (activate_inbound example_parent example_registry
           (example_server\<lparr>authenticated := True,
              remote_compression := ''zlib@openssh.com''\<rparr>))) \<and>
   Set_outbound_compressor ''ZlibCompressor'' \<in> set
     (emitted (example_server\<lparr>authenticated := True, local_compression := ''zlib@openssh.com''\<rparr>)
        (activate_outbound example_parent example_registry
           (example_server\<lparr>authenticated := True,
              local_compression := ''zlib@openssh.com''\<rparr>))) \<and>
   Set_inbound_compressor ''ZlibDecompressor'' \<notin> set
     (emitted (example_server\<lparr>remote_compression := ''zlib@openssh.com''\<rparr>)
        (activate_inbound example_parent example_registry
           (example_server\<lparr>remote_compression := ''zlib@openssh.com''\<rparr>))) \<and>
   Set_inbound_compressor ''ZlibDecompressor'' \<notin> set
     (emitted example_server
        (activate_inbound example_parent example_registry example_server)) \<and>
   local_mac (example_server\<lparr>local_cipher := ''aes128-ctr'', local_compression := ''zlib''\<rparr>) =
     ''none'' \<and>
   Set_outbound_compressor ''ZlibCompressor'' \<in> set
     (emitted (example_server\<lparr>local_cipher := ''aes128-ctr'', local_compression := ''zlib''\<rparr>)
        (activate_outbound example_parent example_registry
           (example_server\<lparr>local_cipher := ''aes128-ctr'', local_compression := ''zlib''\<rparr>)))"
proof -
  have z: "map_of (compression_info example_registry) ''zlib'' =
      Some (Some ''ZlibCompressor'', Some ''ZlibDecompressor'')"
    by (simp add: example_registry_eq)
  show ?thesis
    using compressor_installation
        [where t = "example_server\<lparr>authenticated := True,
            remote_compression := ''zlib@openssh.com''\<rparr>"
          and P = example_parent and reg = example_registry and c = "''ZlibDecompressor''"]
      compressor_installation
        [where t = "example_server\<lparr>authenticated := True,
            local_compression := ''zlib@openssh.com''\<rparr>"
          and P = example_parent and reg = example_registry and c = "''ZlibCompressor''"]
      compressor_installation
        [where t = "example_server\<lparr>remote_compression := ''zlib@openssh.com''\<rparr>"
          and P = example_parent and reg = example_registry and c = "''ZlibDecompressor''"]
      compressor_installation
        [where t = example_server
          and P = example_parent and reg = example_registry and c = "''ZlibDecompressor''"]
      compressor_installation
        [where t = "example_server\<lparr>local_cipher := ''aes128-ctr'', local_compression := ''zlib''\<rparr>"
          and P = example_parent and reg = example_registry and c = "''ZlibCompressor''"]
    by (simp add: z mac_lookup_succeeds_def del: emitted_simps)
qed

subsection \<open>A direction with a cipher and the MAC none\<close>

lemma padded_to_eight:
  assumes "block_size a = 8" "\<not> etm a" "\<not> aead a"
  shows "packet_length a n mod 8 = 0" "16 \<le> packet_length a n" "4 \<le> padding_length a n"
  using assms by (simp_all add: packet_length_def padding_length_def Let_def) presburger+

lemma outbound_settings:
  assumes "map_of (cipher_info reg) (local_cipher t) = Some info"
    and "returned (null_activate_outbound reg t)"
  shows "\<exists>mv mev. mac_values reg (local_mac t) (is_aead_of info)
            (slot_for (server_mode t) ''F'' ''E'') = Inr (mv, mev) \<and>
          outbound_cipher (state_of (null_activate_outbound reg t)) = outbound_args info t mv"
  using assms
  by (auto simp: null_activate_outbound_eq split: option.splits sum.splits if_splits)

text \<open>
  A direction whose cipher and MAC are both \<^verbatim>\<open>none\<close> works: after the outbound
  branch has returned, the packetizer has no engine, block size 8 and no MAC; every
  send succeeds, pads the packet to a multiple of 8 and moves the sequence number on
  by one.
\<close>

lemma null_direction_sends:
  assumes n: "map_of (cipher_info reg) ''none'' = Some none_cipher_entry"
    and c: "local_cipher t = ''none''" "local_mac t = ''none''"
    and r: "returned (null_activate_outbound reg t)"
  defines "s \<equiv> state_of (null_activate_outbound reg t)"
  shows "outbound_cipher s = plain_outbound"
    and "send_message m s =
      Returned (s\<lparr>seqno_out := (seqno_out s + 1) mod 2 ^ 32,
                 effects := effects s @ [Send_message m]\<rparr>)"
    and "packet_length (outbound_cipher s) k mod 8 = 0"
proof -
  from n c have i: "map_of (cipher_info reg) (local_cipher t) = Some none_cipher_entry"
    by simp
  from outbound_settings [OF i r] c show o: "outbound_cipher s = plain_outbound"
    by (auto simp: s_def mac_values_none outbound_args_def cipher_values_def plain_outbound_def)
  show "send_message m s =
      Returned (s\<lparr>seqno_out := (seqno_out s + 1) mod 2 ^ 32,
                 effects := effects s @ [Send_message m]\<rparr>)"
    by (simp add: send_message_def o emit_def)
  show "packet_length (outbound_cipher s) k mod 8 = 0"
    by (rule padded_to_eight) (simp_all add: o plain_outbound_def)
qed

text \<open>
  C5 fails on the code for a direction with a real cipher and the MAC \<^verbatim>\<open>none\<close>. A
  client on which \<^verbatim>\<open>aes128-ctr\<close> and the MAC \<^verbatim>\<open>none\<close> were negotiated outbound
  activates the direction and returns, having given the packetizer a cipher engine and
  no MAC key: the next send raises \<^verbatim>\<open>TypeError\<close> and leaves the sequence number where it
  was. On a server that owes the extension message the activation itself raises, after
  NEWKEYS and before the peer's NEWKEYS is expected.
\<close>

theorem mixed_direction_cannot_send:
  "local_cipher (example_server\<lparr>server_mode := False, local_cipher := ''aes128-ctr''\<rparr>) =
     ''aes128-ctr'' \<and>
   local_mac (example_server\<lparr>server_mode := False, local_cipher := ''aes128-ctr''\<rparr>) = ''none'' \<and>
   returned (activate_outbound example_parent example_registry
     (example_server\<lparr>server_mode := False, local_cipher := ''aes128-ctr''\<rparr>)) \<and>
   outbound_cipher (state_of (activate_outbound example_parent example_registry
     (example_server\<lparr>server_mode := False, local_cipher := ''aes128-ctr''\<rparr>))) =
     \<lparr>block_engine = Some \<lparr>engine_name = ''aes128-ctr'', engine_key = Derived ''C'' 16,
        engine_iv = Derived ''A'' 16, engine_operation = ENCRYPT, engine_aead = False\<rparr>,
      block_size = 16, mac_engine = None, mac_size = 0, mac_key = None, etm = False,
      aead = False, iv = None, sdctr = True\<rparr> \<and>
   send_message [Add_byte MSG_NEWKEYS]
     (state_of (activate_outbound example_parent example_registry
        (example_server\<lparr>server_mode := False, local_cipher := ''aes128-ctr''\<rparr>))) =
     Raised TypeError
       (state_of (activate_outbound example_parent example_registry
          (example_server\<lparr>server_mode := False, local_cipher := ''aes128-ctr''\<rparr>))) \<and>
   error_of (activate_outbound example_parent example_registry
     (example_server\<lparr>local_cipher := ''aes128-ctr''\<rparr>)) = Some TypeError \<and>
   sent_messages (emitted (example_server\<lparr>local_cipher := ''aes128-ctr''\<rparr>)
     (activate_outbound example_parent example_registry
        (example_server\<lparr>local_cipher := ''aes128-ctr''\<rparr>))) = [[Add_byte MSG_NEWKEYS]] \<and>
   seqno_out (state_of (activate_outbound example_parent example_registry
     (example_server\<lparr>local_cipher := ''aes128-ctr''\<rparr>))) = 0"
proof -
  have e: "endswith ''aes128-ctr'' ''-ctr''"
    by (simp add: endswith_def)
  have a: "\<not> is_aead_of \<lparr>info_class = Some ''AES'', info_mode = Some ''CTR'',
      info_block_size = 16, info_key_size = 16, info_iv_size = None, info_is_aead = None\<rparr>"
    "iv_size_of \<lparr>info_class = Some ''AES'', info_mode = Some ''CTR'',
      info_block_size = 16, info_key_size = 16, info_iv_size = None, info_is_aead = None\<rparr> = 16"
    by (simp_all add: is_aead_of_def iv_size_of_def)
  show ?thesis
    by (simp add: activate_outbound_def null_activate_outbound_eq mac_values_none a e
        outbound_prefix_def strict_events_def cipher_events_def outbound_args_def
        cipher_values_def get_engine_def compressor_events_def ext_info_events_def
        ext_info_message_def ext_info_wanted_def newkeys_message_def can_send_def
        seqno_after_newkeys_def plain_outbound_def slot_for_def send_message_def)
qed

section \<open>Construction and the shared tables\<close>

lemma init_tables:
  "map_of (cipher_info (fst (init P reg base))) = (map_of (cipher_info reg))(''none'' \<mapsto> none_cipher_entry)"
  "map_of (mac_info (fst (init P reg base))) = (map_of (mac_info reg))(''none'' \<mapsto> none_mac_entry)"
  "compression_info (fst (init P reg base)) = compression_info reg"
  by (simp_all add: init_def Let_def update_conv')

lemma init_session:
  "priv_preferred_ciphers (snd (init P reg base)) = preferred_ciphers P base @ [''none'']"
  "priv_preferred_macs (snd (init P reg base)) = preferred_macs P base @ [''none'']"
  by (simp_all add: init_def Let_def preferred_macs_def)

lemma construct_eq:
  "construct P base p =
     \<lparr>tables = fst (init P (tables p) base), sessions = sessions p @ [snd (init P (tables p) base)]\<rparr>"
  "construct_demo P base p =
     \<lparr>tables = fst (init P (tables p) base),
      sessions = sessions p @ [put_none_first P (snd (init P (tables p) base))]\<rparr>"
  by (simp_all add: construct_def construct_demo_def split: prod.split)

lemma put_none_first_lists:
  "priv_preferred_ciphers (put_none_first P t) =
     ''none'' # filter (\<lambda>c. c \<noteq> ''none'') (preferred_ciphers P t)"
  "priv_preferred_macs (put_none_first P t) =
     ''none'' # filter (\<lambda>m. m \<noteq> ''none'') (preferred_macs P t)"
  by (simp_all add: put_none_first_def Let_def preferred_macs_def)

lemma count_list_filter_out [simp]: "count_list (filter (\<lambda>c. c \<noteq> x) xs) x = 0"
  by (induction xs) auto

lemma init_twice:
  "fst (init P (fst (init P' reg base)) base') = fst (init P' reg base)"
  by (simp add: init_def Let_def update_conv' update_triv)

text \<open>
  C7, as amended. Constructing a transport appends \<^verbatim>\<open>none\<close> to its own cipher and MAC
  preferences and stores the \<^verbatim>\<open>none\<close> records in the cipher and MAC tables; no other
  entry of the tables changes, the compression table does not change, and a further
  construction leaves the tables as they are. The transports that exist already keep
  their state, also when the demo programs reorder the new transport's preferences,
  after which \<^verbatim>\<open>none\<close> is first and occurs once. The tables themselves are shared and
  are changed in place.
\<close>

theorem construction_frame:
  fixes P :: parent and base base' :: transport and p :: process
  defines "p' \<equiv> construct P base p" and "d \<equiv> construct_demo P base p"
  shows
   "priv_preferred_ciphers (last (sessions p')) = preferred_ciphers P base @ [''none''] \<and>
    priv_preferred_macs (last (sessions p')) = preferred_macs P base @ [''none''] \<and>
    map_of (cipher_info (tables p')) ''none'' =
      Some \<lparr>info_class = None, info_mode = None, info_block_size = 8, info_key_size = 0,
            info_iv_size = Some 0, info_is_aead = Some False\<rparr> \<and>
    map_of (mac_info (tables p')) ''none'' = Some \<lparr>info_mac_class = None, info_mac_size = 0\<rparr> \<and>
    (\<forall>k. k \<noteq> ''none'' \<longrightarrow>
       map_of (cipher_info (tables p')) k = map_of (cipher_info (tables p)) k \<and>
       map_of (mac_info (tables p')) k = map_of (mac_info (tables p)) k) \<and>
    compression_info (tables p') = compression_info (tables p) \<and>
    tables (construct P base' p') = tables p' \<and>
    tables d = tables p' \<and>
    length (sessions p') = Suc (length (sessions p)) \<and>
    length (sessions d) = Suc (length (sessions p)) \<and>
    (\<forall>i<length (sessions p).
       sessions p' ! i = sessions p ! i \<and> sessions d ! i = sessions p ! i) \<and>
    priv_preferred_ciphers (last (sessions d)) =
      ''none'' # filter (\<lambda>c. c \<noteq> ''none'') (preferred_ciphers P (last (sessions p'))) \<and>
    priv_preferred_macs (last (sessions d)) =
      ''none'' # filter (\<lambda>m. m \<noteq> ''none'') (preferred_macs P (last (sessions p'))) \<and>
    count_list (priv_preferred_ciphers (last (sessions d))) ''none'' = 1 \<and>
    count_list (priv_preferred_macs (last (sessions d))) ''none'' = 1"
  by (simp add: p'_def d_def construct_eq init_tables init_session put_none_first_lists
      none_cipher_entry_def none_mac_entry_def nth_append init_twice)

theorem construction_frame_witness:
  "''aes128-ctr'' \<noteq> ''none'' \<and> (0::nat) < length (sessions example_process) \<and>
   map_of (cipher_info (tables (construct example_parent example_server example_process)))
     ''aes128-ctr'' = map_of (cipher_info (tables example_process)) ''aes128-ctr'' \<and>
   sessions (construct example_parent example_server example_process) ! 0 =
     sessions example_process ! 0 \<and>
   sessions (construct_demo example_parent example_server example_process) ! 0 =
     sessions example_process ! 0 \<and>
   priv_preferred_ciphers
     (last (sessions (construct example_parent example_server example_process))) =
     [''aes128-ctr'', ''aes128-gcm@openssh.com'', ''none''] \<and>
   priv_preferred_ciphers
     (last (sessions (construct_demo example_parent example_server example_process))) =
     [''none'', ''aes128-ctr'', ''aes128-gcm@openssh.com''] \<and>
   priv_preferred_macs
     (last (sessions (construct_demo example_parent example_server example_process))) =
     [''none'', ''hmac-sha2-256'']"
proof -
  have l: "length (sessions example_process) = 1"
    by (simp add: example_process_def)
  have b: "priv_preferred_ciphers example_server = [''aes128-ctr'', ''aes128-gcm@openssh.com'']"
    "priv_preferred_macs example_server = [''hmac-sha2-256'']"
    by (simp_all add: example_server_def)
  have v: "preferred_ciphers example_parent t = priv_preferred_ciphers t"
    "preferred_macs example_parent t = priv_preferred_macs t" for t
    by (simp_all add: preferred_ciphers_def preferred_macs_def example_parent_def)
  show ?thesis
    using construction_frame [of example_parent example_server example_process example_server]
    by (simp add: l b v)
qed

text \<open>
  C7, as stated, fails: the tables are not immutable. In a process whose tables do not
  know \<^verbatim>\<open>none\<close>, constructing one transport changes the tables that every transport
  of the process reads.
\<close>

theorem tables_mutated_counterexample:
  "map_of (cipher_info (tables example_process)) ''none'' = None \<and>
   map_of (mac_info (tables example_process)) ''none'' = None \<and>
   map_of (cipher_info (tables (construct example_parent example_server example_process)))
     ''none'' = Some none_cipher_entry \<and>
   map_of (mac_info (tables (construct example_parent example_server example_process)))
     ''none'' = Some none_mac_entry \<and>
   tables (construct example_parent example_server example_process) \<noteq> tables example_process"
proof -
  have a: "map_of (cipher_info (tables example_process)) ''none'' = None"
    "map_of (mac_info (tables example_process)) ''none'' = None"
    by (simp_all add: example_process_def library_registry_def)
  have b: "map_of (cipher_info (tables (construct example_parent example_server example_process)))
     ''none'' = Some none_cipher_entry"
    "map_of (mac_info (tables (construct example_parent example_server example_process)))
     ''none'' = Some none_mac_entry"
    by (simp_all add: construct_eq init_tables)
  from a(1) b(1) have "tables (construct example_parent example_server example_process) \<noteq>
      tables example_process"
    by auto
  with a b show ?thesis by simp
qed


end
